theory Spec2Isabelle
  imports Complex_Main
begin

section \<open>JavaScript numbers and the coercions the field parser relies on\<close>

text \<open>
  A JavaScript number is a NaN, an infinity, a zero of either sign or another finite
  value. A finite value is kept as the real number it denotes, which is a binary64
  number: every text is rounded to binary64 when it is read. \<open>Num 0\<close> is the positive
  zero and \<open>NegZero\<close> the negative one; comparison treats them as equal.
\<close>

datatype jsnum = NaN | Num real | NegZero | PosInf | NegInf

fun isNaN :: "jsnum \<Rightarrow> bool" where
  "isNaN NaN = True"
| "isNaN _ = False"

fun isFinite :: "jsnum \<Rightarrow> bool" where
  "isFinite (Num _) = True"
| "isFinite NegZero = True"
| "isFinite _ = False"

text \<open>The operator \<open>a <= b\<close> on numbers: false as soon as one side is NaN.\<close>

fun jsLe :: "jsnum \<Rightarrow> jsnum \<Rightarrow> bool" where
  "jsLe NaN _ = False"
| "jsLe _ NaN = False"
| "jsLe NegInf _ = True"
| "jsLe _ PosInf = True"
| "jsLe PosInf _ = False"
| "jsLe _ NegInf = False"
| "jsLe (Num a) (Num b) = (a \<le> b)"
| "jsLe (Num a) NegZero = (a \<le> 0)"
| "jsLe NegZero (Num b) = (0 \<le> b)"
| "jsLe NegZero NegZero = True"

fun negate :: "jsnum \<Rightarrow> jsnum" where
  "negate NaN = NaN"
| "negate (Num r) = (if r = 0 then NegZero else Num (- r))"
| "negate NegZero = Num 0"
| "negate PosInf = NegInf"
| "negate NegInf = PosInf"

subsection \<open>Rounding to binary64\<close>

text \<open>The number of binary digits of a natural number, and the powers of two.\<close>

function bitLength :: "nat \<Rightarrow> nat" where
  "bitLength n = (if n = 0 then 0 else bitLength (n div 2) + 1)"
  by pat_completeness auto
termination
  by (relation "measure id") auto

declare bitLength.simps [simp del]

definition pow2 :: "int \<Rightarrow> real" where
  "pow2 e = (if 0 \<le> e then 2 ^ nat e else 1 / 2 ^ nat (- e))"

text \<open>For a positive \<open>r\<close>, the exponent \<open>e\<close> with \<open>2 ^ e <= r < 2 ^ (e + 1)\<close>.\<close>

definition exponent2 :: "real \<Rightarrow> int" where
  "exponent2 r =
     (if 1 \<le> r then int (bitLength (nat \<lfloor>r\<rfloor>)) - 1
      else - int (bitLength (nat \<lceil>1 / r\<rceil> - 1)))"

definition roundHalfEven :: "real \<Rightarrow> int" where
  "roundHalfEven s =
     (if s - of_int \<lfloor>s\<rfloor> < 1 / 2 then \<lfloor>s\<rfloor>
      else if 1 / 2 < s - of_int \<lfloor>s\<rfloor> then \<lfloor>s\<rfloor> + 1
      else if even \<lfloor>s\<rfloor> then \<lfloor>s\<rfloor> else \<lfloor>s\<rfloor> + 1)"

text \<open>
  The Number value of a non-negative real: the nearest multiple of the unit in the last
  place (53 significant bits, exponent at least -1022), ties to the even multiple, and
  the infinity when that reaches \<open>2 ^ 1024\<close>.
\<close>

definition toDouble :: "real \<Rightarrow> jsnum" where
  "toDouble r =
     (if r = 0 then Num 0
      else
        let u = pow2 (max (exponent2 r) (- 1022) - 52);
            v = of_int (roundHalfEven (r / u)) * u
        in if pow2 1024 \<le> v then PosInf else Num v)"

subsection \<open>The shortest decimal of a binary64 number\<close>

function digitLength :: "nat \<Rightarrow> nat" where
  "digitLength n = (if n = 0 then 0 else digitLength (n div 10) + 1)"
  by pat_completeness auto
termination
  by (relation "measure id") auto

declare digitLength.simps [simp del]

definition pow10 :: "int \<Rightarrow> real" where
  "pow10 e = (if 0 \<le> e then 10 ^ nat e else 1 / 10 ^ nat (- e))"

definition exponent10 :: "real \<Rightarrow> int" where
  "exponent10 r =
     (if 1 \<le> r then int (digitLength (nat \<lfloor>r\<rfloor>)) - 1
      else - int (digitLength (nat \<lceil>1 / r\<rceil> - 1)))"

text \<open>
  The decimal with \<open>k\<close> significant digits that reads back as \<open>r\<close>, if there is one:
  of the two decimals around \<open>r\<close> the one that reads back, the closer one when both do,
  the one with the even last digit when they are equally close.
\<close>

definition candidate :: "int \<Rightarrow> real \<Rightarrow> real option" where
  "candidate k r =
     (let p = pow10 (exponent10 r - k + 1);
          lo = \<lfloor>r / p\<rfloor>;
          c1 = of_int lo * p;
          c2 = of_int (lo + 1) * p;
          ok1 = (toDouble c1 = Num r);
          ok2 = (toDouble c2 = Num r)
      in if ok1 \<and> ok2 then
           (if r - c1 < c2 - r then Some c1
            else if c2 - r < r - c1 then Some c2
            else if even lo then Some c1 else Some c2)
         else if ok1 then Some c1
         else if ok2 then Some c2
         else None)"

text \<open>
  The decimal with the fewest significant digits (from \<open>k\<close> on) that reads back as the
  positive binary64 number \<open>r\<close>: the digits that number formatting starts from.
  Seventeen digits always suffice.
\<close>

function shortestFrom :: "int \<Rightarrow> real \<Rightarrow> real" where
  "shortestFrom k r =
     (if 17 < k then r
      else case candidate k r of Some c \<Rightarrow> c | None \<Rightarrow> shortestFrom (k + 1) r)"
  by pat_completeness auto
termination
  by (relation "measure (\<lambda>(k, r). nat (18 - k))") auto

declare shortestFrom.simps [simp del]

subsection \<open>Digits\<close>

definition isDigit :: "char \<Rightarrow> bool" where
  "isDigit c = (c \<in> set ''0123456789'')"

definition isHexDigit :: "char \<Rightarrow> bool" where
  "isHexDigit c = (c \<in> set ''0123456789abcdefABCDEF'')"

definition digitVal :: "char \<Rightarrow> nat" where
  "digitVal c =
     (if c \<in> set ''abcdef'' then of_char c - 87
      else if c \<in> set ''ABCDEF'' then of_char c - 55
      else of_char c - 48)"

definition digitsVal :: "nat \<Rightarrow> string \<Rightarrow> nat" where
  "digitsVal base ds = foldl (\<lambda>a c. base * a + digitVal c) 0 ds"

subsection \<open>White space\<close>

text \<open>
  A text is the list of the bytes of its UTF-8 encoding. The white space and line
  terminators that \<open>Number\<close> and \<open>parseFloat\<close> strip, as encoded: tab, line feed,
  vertical tab, form feed, carriage return, space, U+00A0, U+1680, U+2000 to U+200A,
  U+2028, U+2029, U+202F, U+205F, U+3000 and U+FEFF.
\<close>

definition whiteSpace :: "string list" where
  "whiteSpace =
     [[CHR 0x09], [CHR 0x0A], [CHR 0x0B], [CHR 0x0C], [CHR 0x0D], [CHR 0x20],
      [CHR 0xC2, CHR 0xA0], [CHR 0xE1, CHR 0x9A, CHR 0x80],
      [CHR 0xE2, CHR 0x80, CHR 0x80], [CHR 0xE2, CHR 0x80, CHR 0x81],
      [CHR 0xE2, CHR 0x80, CHR 0x82], [CHR 0xE2, CHR 0x80, CHR 0x83],
      [CHR 0xE2, CHR 0x80, CHR 0x84], [CHR 0xE2, CHR 0x80, CHR 0x85],
      [CHR 0xE2, CHR 0x80, CHR 0x86], [CHR 0xE2, CHR 0x80, CHR 0x87],
      [CHR 0xE2, CHR 0x80, CHR 0x88], [CHR 0xE2, CHR 0x80, CHR 0x89],
      [CHR 0xE2, CHR 0x80, CHR 0x8A], [CHR 0xE2, CHR 0x80, CHR 0xA8],
      [CHR 0xE2, CHR 0x80, CHR 0xA9], [CHR 0xE2, CHR 0x80, CHR 0xAF],
      [CHR 0xE2, CHR 0x81, CHR 0x9F], [CHR 0xE3, CHR 0x80, CHR 0x80],
      [CHR 0xEF, CHR 0xBB, CHR 0xBF]]"

text \<open>Removes from the front of a text every leading occurrence of one of the given texts.\<close>

function dropAny :: "string list \<Rightarrow> string \<Rightarrow> string" where
  "dropAny ws s =
     (case List.find (\<lambda>w. w \<noteq> [] \<and> take (length w) s = w) ws of
        None \<Rightarrow> s
      | Some w \<Rightarrow> dropAny ws (drop (length w) s))"
  by pat_completeness auto
termination
proof (relation "measure (\<lambda>(ws, s). length s)")
  show "wf (measure (\<lambda>(ws, s). length s))"
    by simp
next
  fix ws :: "string list" and s w :: string
  assume "List.find (\<lambda>w. w \<noteq> [] \<and> take (length w) s = w) ws = Some w"
  then have "w \<noteq> []" and "take (length w) s = w"
    by (auto simp: find_Some_iff)
  then have "s \<noteq> []"
    by auto
  with \<open>w \<noteq> []\<close> show "((ws, drop (length w) s), (ws, s)) \<in> measure (\<lambda>(ws, s). length s)"
    by simp
qed

declare dropAny.simps [simp del]

definition trimStart :: "string \<Rightarrow> string" where
  "trimStart s = dropAny whiteSpace s"

definition trim :: "string \<Rightarrow> string" where
  "trim s = rev (dropAny (map rev whiteSpace) (rev (trimStart s)))"

subsection \<open>Decimal literals\<close>

text \<open>
  The exponent part of a decimal literal: \<open>e\<close> or \<open>E\<close>, an optional sign and at
  least one digit. When the text does not start with one, nothing is consumed.
\<close>

definition scanExponent :: "string \<Rightarrow> int \<times> string" where
  "scanExponent s =
     (case s of
        [] \<Rightarrow> (0, s)
      | c # t \<Rightarrow>
          if c = CHR ''e'' \<or> c = CHR ''E'' then
            (let sg = (case t of [] \<Rightarrow> (1::int) | d # _ \<Rightarrow> if d = CHR ''-'' then - 1 else 1);
                 u = (case t of [] \<Rightarrow> t | d # u' \<Rightarrow> if d = CHR ''-'' \<or> d = CHR ''+'' then u' else t);
                 ds = takeWhile isDigit u
             in if ds = [] then (0, s) else (sg * int (digitsVal 10 ds), dropWhile isDigit u))
          else (0, s))"

text \<open>
  The longest prefix that is an unsigned decimal literal (\<open>Infinity\<close>, \<open>12\<close>,
  \<open>12.\<close>, \<open>12.5\<close>, \<open>.5\<close>, each number with an optional exponent), with the text
  that follows it; \<open>None\<close> when no prefix is one. The value is the literal's decimal
  value rounded to binary64.
\<close>

definition scanUnsigned :: "string \<Rightarrow> (jsnum \<times> string) option" where
  "scanUnsigned s =
     (if take 8 s = ''Infinity'' then Some (PosInf, drop 8 s)
      else
        let ip = takeWhile isDigit s;
            r1 = dropWhile isDigit s;
            dot = (case r1 of [] \<Rightarrow> False | c # _ \<Rightarrow> c = CHR ''.'');
            fp = (if dot then takeWhile isDigit (tl r1) else []);
            r2 = (if dot then dropWhile isDigit (tl r1) else r1)
        in if ip = [] \<and> fp = [] then None
           else Some (toDouble (real (digitsVal 10 (ip @ fp))
                                * pow10 (fst (scanExponent r2) - int (length fp))),
                      snd (scanExponent r2)))"

definition scanSigned :: "string \<Rightarrow> (jsnum \<times> string) option" where
  "scanSigned s =
     (case s of
        [] \<Rightarrow> None
      | c # t \<Rightarrow>
          if c = CHR ''-'' then map_option (\<lambda>p. (negate (fst p), snd p)) (scanUnsigned t)
          else if c = CHR ''+'' then scanUnsigned t
          else scanUnsigned s)"

text \<open>\<open>parseFloat(s)\<close>: leading white space is skipped, what follows the literal is ignored.\<close>

definition parseFloat :: "string \<Rightarrow> jsnum" where
  "parseFloat s = (case scanSigned (trimStart s) of None \<Rightarrow> NaN | Some p \<Rightarrow> fst p)"

text \<open>The literals \<open>0x..\<close>, \<open>0o..\<close> and \<open>0b..\<close>, which only \<open>Number\<close> reads.\<close>

definition radixLiteral :: "string \<Rightarrow> jsnum" where
  "radixLiteral t =
     (case t of
        z # p # d # ds \<Rightarrow>
          if z \<noteq> CHR ''0'' then NaN
          else if p \<in> set ''xX'' \<and> list_all isHexDigit (d # ds)
            then toDouble (real (digitsVal 16 (d # ds)))
          else if p \<in> set ''oO'' \<and> list_all (\<lambda>c. c \<in> set ''01234567'') (d # ds)
            then toDouble (real (digitsVal 8 (d # ds)))
          else if p \<in> set ''bB'' \<and> list_all (\<lambda>c. c \<in> set ''01'') (d # ds)
            then toDouble (real (digitsVal 2 (d # ds)))
          else NaN
      | _ \<Rightarrow> NaN)"

text \<open>
  \<open>Number(s)\<close>, which is also the unary \<open>+s\<close>: the whole trimmed text must be one
  literal, and the empty text is the number 0.
\<close>

definition toNumber :: "string \<Rightarrow> jsnum" where
  "toNumber s =
     (let t = trim s in
      if t = [] then Num 0
      else case scanSigned t of
             None \<Rightarrow> NaN
           | Some p \<Rightarrow> if snd p = [] then fst p else radixLiteral t)"

section \<open>Field parser (data.js, callback)\<close>

text \<open>
  \<open>state.isRatioField = csvData[0][state.expressed].toString().includes(":")\<close>,
  as a function of the first row's cell.
\<close>

definition isRatioCell :: "string \<Rightarrow> bool" where
  "isRatioCell cell = (CHR '':'' \<in> set cell)"

text \<open>
  The body of the \<open>forEach\<close> that replaces \<open>d[state.expressed]\<close>. Cells of a table
  read by \<open>d3.csv\<close> are strings, so \<open>typeof\<close> is \<open>"string"\<close>; \<open>split(":")[0]\<close> is the
  text before the first colon and \<open>replace(/,/g, '')\<close> removes every comma.
\<close>

definition parseValue :: "string \<Rightarrow> jsnum" where
  "parseValue cell =
     (if CHR '':'' \<in> set cell then parseFloat (takeWhile (\<lambda>c. c \<noteq> CHR '':'') cell)
      else toNumber (filter (\<lambda>c. c \<noteq> CHR '','') cell))"

section \<open>Number formatting (data.js, formatNumber; chart.js, formatDisplay)\<close>

function natDigits :: "nat \<Rightarrow> string" where
  "natDigits n =
     (if n < 10 then [''0123456789'' ! n]
      else natDigits (n div 10) @ [''0123456789'' ! (n mod 10)])"
  by pat_completeness auto
termination
  by (relation "measure id") auto

text \<open>Groups of three digits from the right, on the reversed digits.\<close>

function chunk3 :: "string \<Rightarrow> string" where
  "chunk3 ds = (if length ds \<le> 3 then ds else take 3 ds @ '','' @ chunk3 (drop 3 ds))"
  by pat_completeness auto
termination
  by (relation "measure length") auto

definition groupDigits :: "string \<Rightarrow> string" where
  "groupDigits ds = rev (chunk3 (rev ds))"

text \<open>
  \<open>Number(value).toLocaleString(undefined, {minimumFractionDigits: value % 1 !== 0 ? 2 : 0,
  maximumFractionDigits: 2})\<close> for a runtime whose default locale formats as \<open>en-US\<close>
  does. The formatter starts from the shortest decimal that reads back as the number:
  a whole number has no fraction digits, any other number exactly two, rounded half
  away from zero; the integer part is grouped by commas. The infinity sign is given by
  its three UTF-8 bytes.
\<close>

definition formatNumber :: "jsnum \<Rightarrow> string" where
  "formatNumber v =
     (case v of
        NaN \<Rightarrow> ''NaN''
      | PosInf \<Rightarrow> [CHR 0xE2, CHR 0x88, CHR 0x9E]
      | NegInf \<Rightarrow> [CHR ''-'', CHR 0xE2, CHR 0x88, CHR 0x9E]
      | NegZero \<Rightarrow> ''-0''
      | Num r \<Rightarrow>
          (let s = (if r = 0 then 0 else shortestFrom 1 \<bar>r\<bar>);
               c = nat \<lfloor>s * 100 + 1 / 2\<rfloor>;
               whole = (if frac r = 0 then nat \<lfloor>s\<rfloor> else c div 100);
               fraction = (if frac r = 0 then []
                           else ''.'' @ [''0123456789'' ! (c mod 100 div 10),
                                         ''0123456789'' ! (c mod 10)])
           in (if r < 0 then ''-'' else []) @ groupDigits (natDigits whole) @ fraction))"

text \<open>
  \<open>formatDisplay = v => state.isRatioField ? `${formatNumber(v)}:1` : formatNumber(v)\<close>,
  the tooltip text of the chart.
\<close>

definition formatDisplay :: "bool \<Rightarrow> jsnum \<Rightarrow> string" where
  "formatDisplay isRatioField v =
     (if isRatioField then formatNumber v @ '':1'' else formatNumber v)"

section \<open>Classifier (data.js, callback)\<close>

text \<open>
  A row \<open>d\<close> of the table after the \<open>forEach\<close> of the callback: its \<open>county\<close>, the
  original cell kept in \<open>d.rawValue\<close>, and the number now stored in \<open>d[state.expressed]\<close>.
\<close>

record healthRecord =
  county :: string
  rawValue :: string
  expressedValue :: jsnum

text \<open>
  The values \<open>rawValue\<close> can hold in \<open>highlightCounties\<close>, and the values a property
  lookup can find that are not rows of the table: the built-in that every object
  inherits under a name (\<open>constructor\<close>, \<open>toString\<close>, ...), or a cell or number of a
  row that has become the prototype of the lookup table.
\<close>

datatype jsval = Undefined | Null | Str string | Number jsnum

datatype found = Inherited string | Primitive jsval

text \<open>
  What the callback takes from outside the repository, as parameters of the model:
  \<open>ss.jenks(data, nClasses)\<close> of simple-statistics; the palettes \<open>d3.schemeReds[k]\<close>
  (\<open>None\<close> where the array has no entry) and \<open>d3.interpolateReds(t)\<close> of d3, a colour
  being its CSS text; and of the runtime, the text \<open>String(x)\<close> of a number and the
  number \<open>+v[field]\<close> for a value \<open>v\<close> that is not a row.
\<close>

record lib =
  jenks :: "real list \<Rightarrow> nat \<Rightarrow> real list"
  schemeReds :: "nat \<Rightarrow> string list option"
  interpolateReds :: "real \<Rightarrow> string"
  numberText :: "jsnum \<Rightarrow> string"
  fieldNumber :: "found \<Rightarrow> string \<Rightarrow> jsnum"

datatype error =
  TypeError
  | ReferenceError string
  | BadData string

text \<open>
  \<open>csvData.map(d => d[state.expressed]).filter(v => !isNaN(v) && isFinite(v))
  .sort((a, b) => a - b)\<close>: the finite values, ascending.
\<close>

definition expressedValues :: "healthRecord list \<Rightarrow> real list" where
  "expressedValues ds =
     sort (List.map_filter
             (\<lambda>v. if \<not> isNaN v \<and> isFinite v
                  then (case v of Num r \<Rightarrow> Some r | NegZero \<Rightarrow> Some 0 | _ \<Rightarrow> None)
                  else None)
             (map expressedValue ds))"

text \<open>\<open>[...new Set(xs)]\<close>: every value once, in the order of its first occurrence.\<close>

fun uniq :: "'a list \<Rightarrow> 'a list" where
  "uniq [] = []"
| "uniq (x # xs) = x # uniq (filter (\<lambda>y. y \<noteq> x) xs)"

text \<open>A threshold scale of d3: its \<open>domain\<close> (the thresholds) and its \<open>range\<close> (the colours).\<close>

record scale =
  domain :: "real list"
  colorRange :: "string list"

record classification =
  breaksArray :: "real list"
  classScale :: scale

text \<open>
  Lines 66 to 88 of data.js. With fewer than five distinct values the callback
  evaluates the quantile scale and then assigns it to \<open>colorScale\<close>, an identifier that
  no scope of data.js declares (the other branch assigns \<open>state.colorScale\<close>). data.js
  is an ECMAScript module, module code is strict, and in strict code the assignment to
  an undeclared identifier throws a ReferenceError once its right-hand side has been
  evaluated; \<open>breaksArray = colorScale.quantiles()\<close> is never reached. Passing an
  undefined palette to \<open>range\<close> throws a TypeError in both branches.
\<close>

definition classify :: "lib \<Rightarrow> real list \<Rightarrow> error + classification" where
  "classify lb expressedVals =
     (let unique = uniq expressedVals in
      if length unique < 5 then
        (case schemeReds lb 5 of
           None \<Rightarrow> Inl TypeError
         | Some _ \<Rightarrow> Inl (ReferenceError ''colorScale''))
      else
        let numBreaks = min 9 (length unique - 1);
            rawBreaks = jenks lb expressedVals numBreaks;
            breaks = uniq (drop 1 rawBreaks);
            numColors = length breaks + 1
        in case (if numColors \<le> 9 then schemeReds lb numColors
                 else Some (map (\<lambda>i. interpolateReds lb (real i / real (numColors - 1)))
                                [0..<numColors])) of
             None \<Rightarrow> Inl TypeError
           | Some cr \<Rightarrow>
               Inr \<lparr>breaksArray = breaks, classScale = \<lparr>domain = breaks, colorRange = cr\<rparr>\<rparr>)"

section \<open>Colour of a value (d3.scaleThreshold)\<close>

text \<open>
  The bisector of d3-array that the threshold scale uses (\<open>bisectRight\<close> with the
  ascending comparator): the binary search moves right whenever \<open>a[mid] <= x\<close>.
\<close>

function bisectRight :: "real list \<Rightarrow> jsnum \<Rightarrow> nat \<Rightarrow> nat \<Rightarrow> nat" where
  "bisectRight a x lo hi =
     (if lo < hi then
        (if jsLe (Num (a ! ((lo + hi) div 2))) x then bisectRight a x ((lo + hi) div 2 + 1) hi
         else bisectRight a x lo ((lo + hi) div 2))
      else lo)"
  by pat_completeness auto
termination
  by (relation "measure (\<lambda>(a, x, lo, hi). hi - lo)") auto

declare bisectRight.simps [simp del]

text \<open>
  The scale applied to a number: \<open>x <= x ? range[bisect(domain, x, 0, n)] : undefined\<close>
  with \<open>n = min(domain.length, range.length - 1)\<close>; \<open>None\<close> is \<open>undefined\<close>.
\<close>

definition scaleThreshold :: "scale \<Rightarrow> jsnum \<Rightarrow> string option" where
  "scaleThreshold sc x =
     (if jsLe x x then
        (let i = bisectRight (domain sc) x 0 (min (length (domain sc)) (length (colorRange sc) - 1))
         in if i < length (colorRange sc) then Some (colorRange sc ! i) else None)
      else None)"

section \<open>Region classifier (map.js, setCounties)\<close>

text \<open>
  The value of the \<open>data-break\<close> attribute. The attribute holds text: the break printed
  as a number, \<open>overflow\<close> or \<open>none\<close>; the three cases are kept apart as constructors.
  The lookup table is given as property lookup sees it: a name has an entry when
  \<open>state.healthByCounty[name]\<close> is truthy, be it a row of the table or a value that the
  table inherits, and the entry's \<open>expressedValue\<close> is \<open>+record[state.expressed]\<close>.
\<close>

datatype bucketTag = Break real | Overflow | NoData

text \<open>The \<open>for\<close> loop over \<open>breaksArray\<close>: the first break with \<open>value <= break\<close>.\<close>

fun scanBreaks :: "real list \<Rightarrow> jsnum \<Rightarrow> bucketTag" where
  "scanBreaks [] v = Overflow"
| "scanBreaks (b # bs) v = (if jsLe v (Num b) then Break b else scanBreaks bs v)"

definition dataBreak :: "(string \<rightharpoonup> healthRecord) \<Rightarrow> real list \<Rightarrow> string \<Rightarrow> bucketTag" where
  "dataBreak healthByCounty breaks countyName =
     (case healthByCounty countyName of
        None \<Rightarrow> NoData
      | Some r \<Rightarrow>
          if \<not> isNaN (expressedValue r) then scanBreaks breaks (expressedValue r) else NoData)"

text \<open>
  The \<open>fill\<close> of a county: the scale's colour of its value, grey when the lookup finds
  nothing. An inherited built-in is an entry whose value is NaN, so it gets no fill.
\<close>

definition countyFill :: "scale \<Rightarrow> (string \<rightharpoonup> healthRecord) \<Rightarrow> string \<Rightarrow> string option" where
  "countyFill sc healthByCounty countyName =
     (case healthByCounty countyName of
        None \<Rightarrow> Some ''#ccc''
      | Some r \<Rightarrow> scaleThreshold sc (expressedValue r))"

section \<open>The callback as a whole (data.js)\<close>

text \<open>
  The table as \<open>d3.csv\<close> delivers it: the column names and the rows, every row giving
  a string for every column. The features are the county names of the geometry
  (\<open>d.properties.NAME\<close>).
\<close>

record csv =
  columns :: "string list"
  csvRows :: "(string \<Rightarrow> string) list"

text \<open>
  A row is a plain object, built by an object literal with one entry per column. The
  entry \<open>__proto__\<close> of a literal creates no property when its value is a string, so
  every column but that one is a property of the row itself.
\<close>

definition ownColumn :: "csv \<Rightarrow> string \<Rightarrow> bool" where
  "ownColumn csvData col = (col \<in> set (columns csvData) \<and> col \<noteq> ''__proto__'')"

text \<open>
  The property names that every plain object inherits from \<open>Object.prototype\<close>, and
  the text \<open>toString()\<close> gives for the value found there: the source text of a built-in
  function, or \<open>[object Object]\<close> for the prototype itself.
\<close>

definition objectPrototype :: "string list" where
  "objectPrototype =
     [''constructor'', ''hasOwnProperty'', ''isPrototypeOf'', ''propertyIsEnumerable'',
      ''toLocaleString'', ''toString'', ''valueOf'', ''__proto__'', ''__defineGetter__'',
      ''__defineSetter__'', ''__lookupGetter__'', ''__lookupSetter__'']"

definition builtinText :: "string \<Rightarrow> string" where
  "builtinText name =
     (if name = ''__proto__'' then ''[object Object]''
      else ''function '' @ name @ ''() { [native code] }'')"

text \<open>\<open>d[col].toString()\<close> for a row \<open>d\<close>, where \<open>d[col]\<close> is not \<open>undefined\<close>.\<close>

definition cellOf :: "csv \<Rightarrow> (string \<Rightarrow> string) \<Rightarrow> string \<Rightarrow> string" where
  "cellOf csvData d col = (if ownColumn csvData col then d col else builtinText col)"

text \<open>
  What the callback draws, as a log: the empty \<open>svg\<close> of the map and the tooltip that
  \<open>setMap\<close> appends, the state outline, one path per county with its \<open>fill\<close> and its
  \<open>data-break\<close>, the chart with one circle per break and the circle's fill, and the
  dropdown with its options.
\<close>

datatype drawing =
  DrawMap
  | DrawTooltip
  | DrawStates
  | DrawCounty string "string option" bucketTag
  | DrawChart "(real \<times> string option) list"
  | DrawDropdown "string list"

text \<open>
  The mutable \<open>state\<close> object of main.js (the fields the callback writes, \<open>null\<close> as
  \<open>None\<close> or the empty table), with the alerts shown and the drawing log. The lookup
  table is kept as property lookup sees it.
\<close>

record state =
  expressed :: "string option"
  isRatioField :: bool
  healthByCounty :: "string \<rightharpoonup> healthRecord"
  attrArray :: "string list"
  colorScale :: "scale option"
  alerts :: "string list"
  drawn :: "drawing list"

text \<open>The state object as main.js creates it, before the first run of \<open>setMap\<close>.\<close>

definition initialState :: state where
  "initialState =
     \<lparr>expressed = None, isRatioField = False, healthByCounty = Map.empty, attrArray = [],
      colorScale = None, alerts = [], drawn = []\<rparr>"

text \<open>\<open>!isNaN(+cell.toString().replace(/,/g, '').split(":")[0])\<close>\<close>

definition numericCell :: "string \<Rightarrow> bool" where
  "numericCell cell =
     (\<not> isNaN (toNumber (takeWhile (\<lambda>c. c \<noteq> CHR '':'') (filter (\<lambda>c. c \<noteq> CHR '','') cell))))"

text \<open>
  The body of \<open>csvData.forEach\<close> for a row whose \<open>county\<close> and selected field are
  columns of the table, two different ones.
\<close>

definition parseRow :: "string \<Rightarrow> (string \<Rightarrow> string) \<Rightarrow> healthRecord" where
  "parseRow field d =
     \<lparr>county = d ''county'', rawValue = d field, expressedValue = parseValue (d field)\<rparr>"

text \<open>
  The key \<open>d.county\<close> of a row in the lookup table, read after the cell of the field
  has been replaced by its number: the text of that number when the field is \<open>county\<close>
  itself, \<open>undefined\<close> when the table has no such column.
\<close>

definition countyKey :: "lib \<Rightarrow> csv \<Rightarrow> string \<Rightarrow> (string \<Rightarrow> string) \<Rightarrow> string" where
  "countyKey lb csvData field d =
     (if field = ''county'' then numberText lb (parseValue (cellOf csvData d field))
      else if ownColumn csvData ''county'' then d ''county''
      else ''undefined'')"

text \<open>The body of \<open>csvData.forEach\<close> for any row and any field that can be read.\<close>

definition readRow :: "lib \<Rightarrow> csv \<Rightarrow> string \<Rightarrow> (string \<Rightarrow> string) \<Rightarrow> healthRecord" where
  "readRow lb csvData field d =
     \<lparr>county = countyKey lb csvData field d, rawValue = cellOf csvData d field,
      expressedValue = parseValue (cellOf csvData d field)\<rparr>"

definition readRows :: "lib \<Rightarrow> csv \<Rightarrow> string \<Rightarrow> healthRecord list" where
  "readRows lb csvData field = map (readRow lb csvData field) (csvRows csvData)"

text \<open>\<open>state.healthByCounty[d.county] = d\<close> for every row in turn: a later row wins.\<close>

definition buildLookup :: "healthRecord list \<Rightarrow> (string \<rightharpoonup> healthRecord)" where
  "buildLookup ds = foldl (\<lambda>m d. m(county d \<mapsto> d)) Map.empty ds"

text \<open>
  The assignment with the key \<open>__proto__\<close> creates no property: it makes the row the
  prototype of the table. A name that is no key of the table is then looked up in that
  row, where the callback has left the columns, the number of the selected field and
  \<open>rawValue\<close>.
\<close>

definition protoProperty :: "csv \<Rightarrow> string \<Rightarrow> (string \<Rightarrow> string) \<Rightarrow> string \<Rightarrow> found option" where
  "protoProperty csvData field p name =
     (if name = field then Some (Primitive (Number (parseValue (cellOf csvData p field))))
      else if name = ''rawValue'' then
        Some (if ownColumn csvData field then Primitive (Str (p field)) else Inherited field)
      else if ownColumn csvData name then Some (Primitive (Str (p name)))
      else None)"

text \<open>The test \<open>record ? ... : ...\<close> on a value that is not a row.\<close>

fun truthy :: "found \<Rightarrow> bool" where
  "truthy (Inherited name) = True"
| "truthy (Primitive (Str t)) = (t \<noteq> [])"
| "truthy (Primitive (Number v)) = (\<not> isNaN v \<and> v \<noteq> Num 0 \<and> v \<noteq> NegZero)"
| "truthy (Primitive Undefined) = False"
| "truthy (Primitive Null) = False"

text \<open>
  \<open>state.healthByCounty[name]\<close> after the loop, as \<open>setCounties\<close> and
  \<open>highlightCounties\<close> use it: a row of the table; else a truthy property of the
  prototype row; else, when there is no such property, the built-in that every object
  inherits under this name. Of a value that is not a row only the number
  \<open>+record[state.expressed]\<close> is kept.
\<close>

definition foundEntry :: "lib \<Rightarrow> string \<Rightarrow> found \<Rightarrow> healthRecord option" where
  "foundEntry lb field v =
     (if truthy v
      then Some \<lparr>county = [], rawValue = [], expressedValue = fieldNumber lb v field\<rparr>
      else None)"

definition inheritedEntry :: "lib \<Rightarrow> string \<Rightarrow> string \<Rightarrow> healthRecord option" where
  "inheritedEntry lb field name =
     (if name \<in> set objectPrototype then foundEntry lb field (Inherited name) else None)"

definition lookupView :: "lib \<Rightarrow> csv \<Rightarrow> string \<Rightarrow> (string \<rightharpoonup> healthRecord)" where
  "lookupView lb csvData field name =
     (case buildLookup (readRows lb csvData field) name of
        Some r \<Rightarrow> Some r
      | None \<Rightarrow>
          (case filter (\<lambda>d. countyKey lb csvData field d = ''__proto__'') (csvRows csvData) of
             [] \<Rightarrow> inheritedEntry lb field name
           | p # ps \<Rightarrow>
               (case protoProperty csvData field (last (p # ps)) name of
                  Some v \<Rightarrow> foundEntry lb field v
                | None \<Rightarrow> inheritedEntry lb field name)))"

definition setCounties ::
  "scale \<Rightarrow> (string \<rightharpoonup> healthRecord) \<Rightarrow> real list \<Rightarrow> string list \<Rightarrow> drawing list" where
  "setCounties sc lookup breaks features =
     map (\<lambda>nm. DrawCounty nm (countyFill sc lookup nm) (dataBreak lookup breaks nm)) features"

text \<open>Of the chart only the circles are kept: \<open>.style("fill", d => colorScale(d))\<close>.\<close>

definition setChart :: "scale \<Rightarrow> real list \<Rightarrow> drawing" where
  "setChart sc breaks = DrawChart (map (\<lambda>d. (d, scaleThreshold sc (Num d))) breaks)"

text \<open>
  \<open>createDropdown()\<close>: whatever the dropdown's wrapper holds is removed, then the
  dropdown is built from \<open>state.attrArray\<close>.
\<close>

fun isDropdown :: "drawing \<Rightarrow> bool" where
  "isDropdown (DrawDropdown opts) = True"
| "isDropdown d = False"

definition createDropdown :: "state \<Rightarrow> state" where
  "createDropdown st =
     st\<lparr>drawn := filter (\<lambda>d. \<not> isDropdown d) (drawn st) @ [DrawDropdown (attrArray st)]\<rparr>"

text \<open>The text of the alert, \<open>`Not enough valid data for "${state.expressed}"`\<close>.\<close>

definition notEnough :: "string \<Rightarrow> string" where
  "notEnough field = ''Not enough valid data for '' @ [CHR 0x22] @ field @ [CHR 0x22]"

text \<open>
  The column filter of \<open>state.attrArray\<close>, given the first row, and the selection
  \<open>if (!state.expressed) state.expressed = state.attrArray[0]\<close>: an unset or empty
  selection is replaced by the first column of the filter, \<open>undefined\<close> when there is none.
\<close>

definition numericColumns :: "csv \<Rightarrow> (string \<Rightarrow> string) \<Rightarrow> string list" where
  "numericColumns csvData row0 =
     filter (\<lambda>col. col \<noteq> ''county'' \<and> col \<noteq> ''fips'' \<and> col \<noteq> ''deaths''
                   \<and> numericCell (cellOf csvData row0 col))
            (columns csvData)"

definition selectField :: "string option \<Rightarrow> string list \<Rightarrow> string option" where
  "selectField current attrs =
     (if current = None \<or> current = Some []
      then (case attrs of [] \<Rightarrow> None | a # _ \<Rightarrow> Some a)
      else current)"

text \<open>The property name that \<open>state.expressed\<close> stands for: \<open>undefined\<close> when it is unset.\<close>

definition fieldName :: "string option \<Rightarrow> string" where
  "fieldName current = (case current of None \<Rightarrow> ''undefined'' | Some f \<Rightarrow> f)"

text \<open>
  The callback, from the column filter to \<open>createDropdown()\<close>. The result is the
  exception thrown, if any, and the state as the callback leaves it. Reading a property
  of \<open>undefined\<close> (no first row, or nothing in the first row under the name of the
  selected field) is a TypeError; without a first row the filter throws as soon as it
  has a column to test. \<open>BadData\<close> is the alert followed by
  \<open>throw new Error("Bad data column selected")\<close>.
\<close>

definition callback :: "lib \<Rightarrow> csv \<Rightarrow> string list \<Rightarrow> state \<Rightarrow> error option \<times> state" where
  "callback lb csvData features st =
     (case csvRows csvData of
        [] \<Rightarrow>
          (Some TypeError,
           if list_ex (\<lambda>col. col \<noteq> ''county'' \<and> col \<noteq> ''fips'' \<and> col \<noteq> ''deaths'') (columns csvData)
           then st
           else st\<lparr>attrArray := [], expressed := selectField (expressed st) []\<rparr>)
      | row0 # _ \<Rightarrow>
          let st1 = st\<lparr>attrArray := numericColumns csvData row0\<rparr>;
              st2 = st1\<lparr>expressed := selectField (expressed st1) (attrArray st1)\<rparr>;
              field = fieldName (expressed st2)
          in if \<not> ownColumn csvData field \<and> field \<notin> set objectPrototype
             then (Some TypeError, st2)
             else
               let st3 = st2\<lparr>isRatioField := isRatioCell (cellOf csvData row0 field)\<rparr>;
                   st4 = st3\<lparr>healthByCounty := lookupView lb csvData field\<rparr>;
                   vals = expressedValues (readRows lb csvData field)
               in if length vals < 2
                  then (Some (BadData (notEnough field)),
                        st4\<lparr>alerts := alerts st4 @ [notEnough field]\<rparr>)
                  else
                    case classify lb vals of
                      Inl e \<Rightarrow> (Some e, st4)
                    | Inr cl \<Rightarrow>
                        (None,
                         createDropdown
                           (st4\<lparr>colorScale := Some (classScale cl),
                                drawn := drawn st4 @ [DrawStates]
                                  @ setCounties (classScale cl) (lookupView lb csvData field)
                                      (breaksArray cl) features
                                  @ [setChart (classScale cl) (breaksArray cl)]\<rparr>)))"

text \<open>
  \<open>setMap()\<close> appends the empty \<open>svg\<close> of the map and a tooltip, and the callback runs
  once the files are loaded; \<open>csvData\<close> and \<open>features\<close> are what the files hold.
\<close>

definition setMap :: "lib \<Rightarrow> csv \<Rightarrow> string list \<Rightarrow> state \<Rightarrow> error option \<times> state" where
  "setMap lb csvData features st =
     callback lb csvData features (st\<lparr>drawn := drawn st @ [DrawMap, DrawTooltip]\<rparr>)"

text \<open>
  The \<open>change\<close> handler of the dropdown, for the option chosen: \<open>state.expressed\<close> is
  set, \<open>updateVis()\<close> removes the \<open>svg\<close> of the chart and of the map with all they
  hold, and calls \<open>setMap()\<close>.
\<close>

fun inSvg :: "drawing \<Rightarrow> bool" where
  "inSvg DrawTooltip = False"
| "inSvg (DrawDropdown opts) = False"
| "inSvg d = True"

definition updateVis :: "lib \<Rightarrow> csv \<Rightarrow> string list \<Rightarrow> state \<Rightarrow> error option \<times> state" where
  "updateVis lb csvData features st =
     setMap lb csvData features (st\<lparr>drawn := filter (\<lambda>d. \<not> inSvg d) (drawn st)\<rparr>)"

definition dropdownChange ::
  "lib \<Rightarrow> csv \<Rightarrow> string list \<Rightarrow> string \<Rightarrow> state \<Rightarrow> error option \<times> state" where
  "dropdownChange lb csvData features choice st =
     updateVis lb csvData features (st\<lparr>expressed := Some choice\<rparr>)"

section \<open>Labels (map.js, highlightCounties)\<close>

text \<open>
  \<open>state.healthByCounty[countyName]?.[state.expressed]\<close>: the callback has replaced
  the cell of every row by a number, so a county with a record gives a number. Only
  counties whose \<open>data-break\<close> is a break are looked up, so what is found reads as a
  number.
\<close>

definition labelRawValue :: "(string \<rightharpoonup> healthRecord) \<Rightarrow> string \<Rightarrow> jsval" where
  "labelRawValue lookup countyName =
     (case lookup countyName of None \<Rightarrow> Undefined | Some r \<Rightarrow> Number (expressedValue r))"

text \<open>
  The guard \<open>rawValue !== undefined && rawValue !== null && rawValue !== ""\<close> and the
  label's text \<open>isNaN(+rawValue) ? rawValue : formatNumber(rawValue)\<close>; \<open>None\<close> when
  the county gets no label.
\<close>

definition labelText :: "jsval \<Rightarrow> string option" where
  "labelText rawVal =
     (if rawVal \<noteq> Undefined \<and> rawVal \<noteq> Null \<and> rawVal \<noteq> Str [] then
        Some (case rawVal of
                Number v \<Rightarrow> if isNaN v then ''NaN'' else formatNumber v
              | Str t \<Rightarrow> if isNaN (toNumber t) then t else formatNumber (toNumber t)
              | _ \<Rightarrow> [])
      else None)"

text \<open>
  The filter \<open>attr("data-break") == breakValue\<close>, where \<open>breakValue\<close> is a break of the
  chart: the attribute's text is compared as a number, and the texts \<open>overflow\<close> and
  \<open>none\<close> are not numbers.
\<close>

definition matchesBreak :: "bucketTag \<Rightarrow> real \<Rightarrow> bool" where
  "matchesBreak tg breakValue = (case tg of Break b \<Rightarrow> b = breakValue | _ \<Rightarrow> False)"

text \<open>
  The entries pushed to \<open>labelData\<close>, each with its county and its text; the seed
  position and the force simulation of d3 are left out.
\<close>

definition labelData ::
  "(string \<rightharpoonup> healthRecord) \<Rightarrow> real list \<Rightarrow> string list \<Rightarrow> real \<Rightarrow> (string \<times> string) list" where
  "labelData lookup breaks features breakValue =
     List.map_filter (\<lambda>nm. map_option (\<lambda>t. (nm, t)) (labelText (labelRawValue lookup nm)))
       (filter (\<lambda>nm. matchesBreak (dataBreak lookup breaks nm) breakValue) features)"

subsection \<open>The bubble behind a label\<close>

record rect =
  rectX :: real
  rectY :: real
  rectWidth :: real
  rectHeight :: real

text \<open>
  The new \<open>d.x\<close> and \<open>d.y\<close> of the \<open>requestAnimationFrame\<close> callback, for a label at
  \<open>p\<close> whose wider text line measures \<open>textWidth\<close>, in a view box of \<open>maxX\<close> by \<open>maxY\<close>.
\<close>

definition reclamp :: "real \<Rightarrow> real \<Rightarrow> real \<Rightarrow> real \<times> real \<Rightarrow> real \<times> real" where
  "reclamp textWidth maxX maxY p =
     (let bubblePadding = 6;
          bubbleWidth = textWidth + bubblePadding * 2;
          bubbleHeight = 28;
          padding = 6
      in (max (bubbleWidth / 2 + padding) (min (fst p) (maxX - bubbleWidth / 2 - padding)),
          max (bubbleHeight / 2 + padding) (min (snd p) (maxY - bubbleHeight / 2 - padding))))"

text \<open>The rectangle inserted behind the text, from the reclamped position.\<close>

definition bubbleRect :: "real \<Rightarrow> real \<times> real \<Rightarrow> rect" where
  "bubbleRect textWidth p =
     (let bubbleWidth = textWidth + 6 * 2
      in \<lparr>rectX = fst p - bubbleWidth / 2, rectY = snd p - 16,
          rectWidth = bubbleWidth, rectHeight = 28\<rparr>)"

definition placeBubble :: "real \<Rightarrow> real \<Rightarrow> real \<Rightarrow> real \<times> real \<Rightarrow> rect" where
  "placeBubble textWidth maxX maxY p = bubbleRect textWidth (reclamp textWidth maxX maxY p)"

text \<open>A rectangle that lies inside the view box with \<open>pad\<close> units to spare on every side.\<close>

definition withinPadding :: "real \<Rightarrow> real \<Rightarrow> real \<Rightarrow> rect \<Rightarrow> bool" where
  "withinPadding pad maxX maxY b =
     (pad \<le> rectX b \<and> rectX b + rectWidth b \<le> maxX - pad
      \<and> pad \<le> rectY b \<and> rectY b + rectHeight b \<le> maxY - pad)"

section \<open>What the libraries are assumed to do\<close>

text \<open>
  \<open>ss.jenks(sample, k)\<close> returns \<open>k + 1\<close> boundaries in ascending order, the last of
  them the maximum of the sample, with at least two distinct values after the first.
  The sample is sorted, so its maximum is its last element.
\<close>

definition jenksContract :: "real list \<Rightarrow> nat \<Rightarrow> real list \<Rightarrow> bool" where
  "jenksContract sample k raw =
     (length raw = k + 1 \<and> sorted raw \<and> last raw = last sample \<and> 2 \<le> card (set (drop 1 raw)))"

text \<open>\<open>d3.schemeReds\<close> has a palette for every size from 3 to 9.\<close>

definition d3Palettes :: "lib \<Rightarrow> bool" where
  "d3Palettes lb = list_all (\<lambda>n. schemeReds lb n \<noteq> None) [3..<10]"

section \<open>Example inputs\<close>

text \<open>
  The sample of the specification's scenario, with a stand-in for the libraries: a
  list of boundaries for nine classes of this sample (the lower limit of each class,
  then the maximum), and palettes whose colours are named by their index. The tables
  below have a \<open>county\<close> column, which is never the selected field, and the values
  that are not rows have no number under the name of a field.
\<close>

definition sample :: "real list" where
  "sample = [1, 2, 3, 4, 4, 5, 6, 7, 8, 9, 100]"

definition paletteOf :: "nat \<Rightarrow> string list" where
  "paletteOf n = map (\<lambda>i. ''c'' @ natDigits i) [0..<n]"

definition sampleLib :: lib where
  "sampleLib =
     \<lparr>jenks = (\<lambda>data k. [1, 3, 4, 5, 6, 7, 8, 9, 100, 100]),
      schemeReds = (\<lambda>n. if 3 \<le> n \<and> n \<le> 9 then Some (paletteOf n) else None),
      interpolateReds = (\<lambda>t. ''c''),
      numberText = (\<lambda>v. []),
      fieldNumber = (\<lambda>v field. NaN)\<rparr>"

definition sampleLookup :: "string \<rightharpoonup> healthRecord" where
  "sampleLookup =
     [''Dane'' \<mapsto> \<lparr>county = ''Dane'', rawValue = ''5'', expressedValue = Num 5\<rparr>]"

text \<open>
  A table with the columns \<open>county\<close> and \<open>rate\<close> in which the cell of Dane county is
  empty, and a stand-in for the libraries whose boundaries fit this table.
\<close>

definition tableRow :: "string \<Rightarrow> string \<Rightarrow> string \<Rightarrow> string" where
  "tableRow name cell col = (if col = ''county'' then name else if col = ''rate'' then cell else [])"

definition gapTable :: csv where
  "gapTable =
     \<lparr>columns = [''county'', ''rate''],
      csvRows = [tableRow ''Adams'' ''1'', tableRow ''Dane'' [], tableRow ''Brown'' ''2'',
                 tableRow ''Clark'' ''3'', tableRow ''Door'' ''4'', tableRow ''Dunn'' ''5'']\<rparr>"

definition gapLib :: lib where
  "gapLib = sampleLib\<lparr>jenks := (\<lambda>data k. [0, 1, 2, 3, 4, 5])\<rparr>"

text \<open>A scale over three breaks with a palette of four colours, as the callback builds it.\<close>

definition sampleScale :: scale where
  "sampleScale = \<lparr>domain = [2, 5, 9], colorRange = paletteOf 4\<rparr>"

text \<open>
  A table with two eligible fields, \<open>rate\<close> and \<open>cases\<close>, in which only the first row
  has a finite number of cases: the cell of the second row overflows to \<open>Infinity\<close>
  and the others hold no number. The map has the features of two of its counties.
\<close>

definition healthRow :: "string \<Rightarrow> string \<Rightarrow> string \<Rightarrow> string \<Rightarrow> string" where
  "healthRow name rate cases col =
     (if col = ''county'' then name else if col = ''rate'' then rate
      else if col = ''cases'' then cases else [])"

definition healthTable :: csv where
  "healthTable =
     \<lparr>columns = [''county'', ''rate'', ''cases''],
      csvRows = [healthRow ''Adams'' ''1'' ''7'', healthRow ''Dane'' [] ''1e400'',
                 healthRow ''Brown'' ''2'' ''n/a'', healthRow ''Clark'' ''3'' ''n/a'',
                 healthRow ''Door'' ''4'' ''n/a'', healthRow ''Dunn'' ''5'' ''n/a'']\<rparr>"

definition healthFeatures :: "string list" where
  "healthFeatures = [''Adams'', ''Dane'']"

text \<open>The state once the page has loaded this table, read off the first run of \<open>setMap\<close>.\<close>

definition loaded :: state where
  "loaded = snd (setMap gapLib healthTable healthFeatures initialState)"

text \<open>A table that has its header line and no row.\<close>

definition headerOnly :: csv where
  "headerOnly = \<lparr>columns = [''county'', ''rate''], csvRows = []\<rparr>"

section \<open>Properties\<close>

subsection \<open>The coercions at concrete inputs\<close>

lemmas double_defs = toDouble_def exponent2_def pow2_def roundHalfEven_def bitLength.simps
lemmas scan_defs = scanSigned_def scanUnsigned_def scanExponent_def pow10_def isDigit_def
  digitsVal_def digitVal_def
lemmas trim_defs = trim_def trimStart_def whiteSpace_def dropAny.simps

lemma toDouble_small:
  "toDouble 0 = Num 0" "toDouble 1 = Num 1" "toDouble 2 = Num 2" "toDouble 3 = Num 3"
  "toDouble 4 = Num 4" "toDouble 5 = Num 5" "toDouble 6 = Num 6" "toDouble 7 = Num 7"
  "toDouble 8 = Num 8" "toDouble 9 = Num 9" "toDouble 10 = Num 10"
  by (simp_all add: double_defs)

lemma toDouble_40s:
  "toDouble 40 = Num 40" "toDouble 42 = Num 42" "toDouble 43 = Num 43" "toDouble 50 = Num 50"
  by (simp_all add: double_defs)

lemma scan_digit:
  "scanUnsigned ''0'' = Some (Num 0, [])" "scanUnsigned ''1'' = Some (Num 1, [])"
  "scanUnsigned ''2'' = Some (Num 2, [])" "scanUnsigned ''3'' = Some (Num 3, [])"
  "scanUnsigned ''4'' = Some (Num 4, [])" "scanUnsigned ''5'' = Some (Num 5, [])"
  "scanUnsigned ''6'' = Some (Num 6, [])" "scanUnsigned ''7'' = Some (Num 7, [])"
  "scanUnsigned ''9'' = Some (Num 9, [])" "scanUnsigned ''42'' = Some (Num 42, [])"
  by (simp_all add: scan_defs toDouble_small toDouble_40s)

lemma trim_plain:
  "trim [] = []" "trim ''0'' = ''0''" "trim ''1'' = ''1''" "trim ''2'' = ''2''" "trim ''3'' = ''3''"
  "trim ''4'' = ''4''" "trim ''5'' = ''5''" "trim ''6'' = ''6''" "trim ''7'' = ''7''"
  "trim ''9'' = ''9''" "trim ''n/a'' = ''n/a''" "trimStart ''42'' = ''42''"
  by (simp_all add: trim_defs)

lemma toNumber_digit:
  "toNumber [] = Num 0" "toNumber ''0'' = Num 0" "toNumber ''1'' = Num 1" "toNumber ''2'' = Num 2"
  "toNumber ''3'' = Num 3" "toNumber ''4'' = Num 4" "toNumber ''5'' = Num 5"
  "toNumber ''6'' = Num 6" "toNumber ''7'' = Num 7" "toNumber ''9'' = Num 9"
  by (simp_all add: toNumber_def trim_plain scanSigned_def scan_digit)

lemma toNumber_na: "toNumber ''n/a'' = NaN"
  by (simp add: toNumber_def trim_plain scanSigned_def scanUnsigned_def isDigit_def)

lemma parseFloat_42: "parseFloat ''42'' = Num 42"
  by (simp add: parseFloat_def trim_plain scanSigned_def scan_digit)

lemma exponent10_small: "exponent10 1 = 0" "exponent10 42 = 1"
  by (simp_all add: exponent10_def digitLength.simps)

lemma candidate_small:
  "candidate 1 1 = Some 1" "candidate 1 42 = None" "candidate 2 42 = Some 42"
  by (simp_all add: candidate_def exponent10_small pow10_def toDouble_small toDouble_40s)

lemma shortest_small: "shortestFrom 1 1 = 1" "shortestFrom 1 42 = 42"
proof -
  show "shortestFrom 1 1 = 1"
    by (subst shortestFrom.simps) (simp add: candidate_small)
  have "shortestFrom 2 42 = 42"
    by (subst shortestFrom.simps) (simp add: candidate_small)
  then show "shortestFrom 1 42 = 42"
    by (subst shortestFrom.simps) (simp add: candidate_small)
qed

lemma formatNumber_small:
  "formatNumber (Num 0) = ''0''" "formatNumber (Num 1) = ''1''" "formatNumber (Num 42) = ''42''"
  by (simp_all add: formatNumber_def groupDigits_def shortest_small)

subsection \<open>Rounding to binary64\<close>

text \<open>The exponent found by \<open>bitLength\<close> brackets the number.\<close>

lemma bitLength_gt: "2 ^ k \<le> n \<Longrightarrow> k < bitLength n"
proof (induction k arbitrary: n)
  case 0
  then show ?case by (subst bitLength.simps) simp
next
  case (Suc k)
  then have "2 ^ k \<le> n div 2" by simp
  then have "k < bitLength (n div 2)" by (rule Suc.IH)
  moreover have "(0::nat) < 2 ^ Suc k" by (rule zero_less_power) simp
  then have "n \<noteq> 0" using Suc.prems by linarith
  ultimately show ?case by (subst bitLength.simps) simp
qed

lemma bitLength_le: "0 < n \<Longrightarrow> 2 ^ (bitLength n - 1) \<le> n"
proof (induction n rule: bitLength.induct)
  case (1 n)
  show ?case
  proof (cases "n div 2 = 0")
    case True
    then have "n = 1" using "1.prems" by (simp add: div_eq_0_iff)
    then show ?thesis by (simp add: bitLength.simps)
  next
    case False
    then have ih: "2 ^ (bitLength (n div 2) - 1) \<le> n div 2" using "1.IH" "1.prems" by simp
    have pos: "0 < bitLength (n div 2)" using False by (subst bitLength.simps) simp
    have "bitLength n = bitLength (n div 2) + 1" using "1.prems" by (subst bitLength.simps) simp
    then have "(2::nat) ^ (bitLength n - 1) = 2 * 2 ^ (bitLength (n div 2) - 1)"
      using pos by (cases "bitLength (n div 2)") simp_all
    also have "\<dots> \<le> 2 * (n div 2)" using ih by simp
    also have "\<dots> \<le> n" by simp
    finally show ?thesis .
  qed
qed

lemma roundHalfEven_ge: "\<lfloor>s\<rfloor> \<le> roundHalfEven s"
  by (simp add: roundHalfEven_def)

text \<open>A real number at or above \<open>2 ^ 1024\<close> has no binary64 number: it reads as \<open>Infinity\<close>.\<close>

lemma toDouble_overflow:
  assumes "2 ^ 1024 \<le> r"
  shows "toDouble r = PosInf"
proof -
  let ?n = "nat \<lfloor>r\<rfloor>"
  have r1: "1 \<le> r" and r0: "r \<noteq> 0" using assms by auto
  have "(2::int) ^ 1024 \<le> \<lfloor>r\<rfloor>" using assms by (simp add: le_floor_iff)
  then have n: "(2::nat) ^ 1024 \<le> ?n" by (simp add: le_nat_iff)
  then have b: "1024 < bitLength ?n" by (rule bitLength_gt)
  define m where "m = bitLength ?n - 1"
  have m: "1024 \<le> m" using b by (simp add: m_def)
  have e: "exponent2 r = int m" using r1 b by (simp add: exponent2_def m_def)
  have "(0::nat) < 2 ^ 1024" by simp
  then have "0 < ?n" using n by linarith
  then have "(2::nat) ^ m \<le> ?n" unfolding m_def by (rule bitLength_le)
  then have "real (2 ^ m) \<le> real ?n" by (rule iffD2 [OF of_nat_le_iff])
  also have "\<dots> \<le> r" using r1 by (simp add: of_nat_floor)
  finally have le: "2 ^ m \<le> r" by simp
  define u :: real where "u = 2 ^ (m - 52)"
  have u: "pow2 (max (exponent2 r) (- 1022) - 52) = u"
    using m by (simp add: e pow2_def u_def nat_diff_distrib')
  have upos: "0 < u" by (simp add: u_def)
  have "52 + (m - 52) = m" using m by simp
  then have "(2::real) ^ m = 2 ^ (52 + (m - 52))" by simp
  also have "\<dots> = 2 ^ 52 * 2 ^ (m - 52)" by (rule power_add)
  finally have split: "(2::real) ^ m = 2 ^ 52 * u" by (simp only: u_def)
  then have "2 ^ 52 \<le> r / u" using le upos by (simp add: pos_le_divide_eq)
  then have "(2::int) ^ 52 \<le> \<lfloor>r / u\<rfloor>" by (simp add: le_floor_iff)
  then have "(2::int) ^ 52 \<le> roundHalfEven (r / u)"
    using roundHalfEven_ge [of "r / u"] by linarith
  then have "(2::real) ^ 52 \<le> of_int (roundHalfEven (r / u))"
    by (metis of_int_le_iff of_int_numeral of_int_power)
  then have "2 ^ 52 * u \<le> of_int (roundHalfEven (r / u)) * u"
    using upos by (simp add: mult_right_mono)
  moreover have "(2::real) ^ 1024 \<le> 2 ^ m"
    using m by (intro power_increasing) simp_all
  then have "pow2 1024 \<le> 2 ^ 52 * u"
    unfolding split [symmetric] by (simp only: pow2_def) simp
  ultimately have "pow2 1024 \<le> of_int (roundHalfEven (r / u)) * u" by linarith
  then show ?thesis using r0 by (simp add: toDouble_def Let_def u)
qed

lemma scan_overflow: "scanUnsigned ''1e400'' = Some (PosInf, [])"
proof -
  have "(2::real) ^ 1024 \<le> 10 ^ 400" by simp
  then have "toDouble (10 ^ 400) = PosInf" by (rule toDouble_overflow)
  then show ?thesis by (simp add: scan_defs)
qed

lemma trim_cells: "trim ''1e400'' = ''1e400''" "trim ''-0'' = ''-0''" "trim ''0.1'' = ''0.1''"
  by (simp_all add: trim_defs)

lemma toNumber_overflow: "toNumber ''1e400'' = PosInf"
  by (simp add: toNumber_def trim_cells scanSigned_def scan_overflow)

text \<open>
  The text \<open>0.1\<close> reads as the binary64 number next to one tenth, and that number is
  formatted from its shortest decimal, 0.1, with two fraction digits.
\<close>

lemma toDouble_tenth: "toDouble (1 / 10) = Num (3602879701896397 / 36028797018963968)"
  by (simp add: double_defs)

lemma toDouble_halves: "toDouble (5 / 2) = Num (5 / 2)" "toDouble (13 / 5) \<noteq> Num (5 / 2)"
  by (simp_all add: double_defs)

lemma scan_tenth: "scanUnsigned ''0.1'' = Some (Num (3602879701896397 / 36028797018963968), [])"
  using toDouble_tenth by (simp add: scan_defs)

lemma toDouble_fifth: "toDouble (1 / 5) \<noteq> Num (3602879701896397 / 36028797018963968)"
  by (simp add: double_defs)

lemma shortest_tenth: "shortestFrom 1 (3602879701896397 / 36028797018963968) = 1 / 10"
proof -
  have e: "exponent10 (3602879701896397 / 36028797018963968) = - 1"
    by (simp add: exponent10_def digitLength.simps)
  have f: "\<lfloor>(3602879701896397::real) * 10 / 36028797018963968\<rfloor> = 1"
    by (simp add: floor_eq_iff)
  have "candidate 1 (3602879701896397 / 36028797018963968) = Some (1 / 10)"
    using toDouble_tenth toDouble_fifth by (simp add: candidate_def e pow10_def f)
  then show ?thesis
    by (subst shortestFrom.simps) simp
qed

lemma format_tenth: "formatNumber (Num (3602879701896397 / 36028797018963968)) = ''0.10''"
proof -
  have "frac (3602879701896397 / 36028797018963968 :: real) \<noteq> 0"
    by (simp add: frac_eq_0_iff Ints_def)
  then show ?thesis
    by (simp add: formatNumber_def shortest_tenth groupDigits_def)
qed

text \<open>
  A zero with a minus sign reads as the negative zero, which is labelled \<open>-0\<close>; and
  the white space that is trimmed includes the no-break space.
\<close>

lemma toNumber_negative_zero: "toNumber ''-0'' = NegZero"
  by (simp add: toNumber_def trim_cells scanSigned_def scan_digit)

lemma label_negative_zero: "labelText (Number (toNumber ''-0'')) = Some ''-0''"
  by (simp add: toNumber_negative_zero labelText_def formatNumber_def)

lemma toNumber_no_break_space: "toNumber [CHR 0xC2, CHR 0xA0, CHR ''5''] = Num 5"
proof -
  have "trim [CHR 0xC2, CHR 0xA0, CHR ''5''] = ''5''"
    by (simp add: trim_defs)
  then show ?thesis
    by (simp add: toNumber_def scanSigned_def scan_digit)
qed

lemma parse_cells:
  "parseValue [] = Num 0" "parseValue ''1'' = Num 1" "parseValue ''2'' = Num 2"
  "parseValue ''3'' = Num 3" "parseValue ''4'' = Num 4" "parseValue ''5'' = Num 5"
  "parseValue ''7'' = Num 7" "parseValue ''n/a'' = NaN" "parseValue ''1e400'' = PosInf"
  "parseValue ''-0'' = NegZero"
  by (simp_all add: parseValue_def toNumber_digit toNumber_na toNumber_overflow
      toNumber_negative_zero)

lemma numeric_cells: "numericCell ''1''" "numericCell ''7''"
  by (simp_all add: numericCell_def toNumber_digit)

subsection \<open>Ratio fields\<close>

text \<open>
  C6. Round trip on a ratio field: the cell \<open>42:1\<close> marks the field as a ratio field,
  it is parsed to the number 42 (the text before the colon), and the tooltip's
  \<open>formatDisplay\<close> of that number under the ratio flag gives \<open>42:1\<close> back.
\<close>

theorem ratio_round_trip:
  "isRatioCell ''42:1'' \<and> parseValue ''42:1'' = Num 42
   \<and> formatDisplay (isRatioCell ''42:1'') (parseValue ''42:1'') = ''42:1''"
proof -
  have r: "isRatioCell ''42:1''"
    by (simp add: isRatioCell_def)
  have p: "parseValue ''42:1'' = Num 42"
    by (simp add: parseValue_def parseFloat_42)
  have f: "formatDisplay True (Num 42) = ''42:1''"
    by (simp add: formatDisplay_def formatNumber_small)
  from r p f show ?thesis by simp
qed

subsection \<open>Distinct values and sorted lists\<close>

lemma set_uniq: "set (uniq xs) = set xs"
  by (induction xs rule: uniq.induct) auto

lemma distinct_uniq: "distinct (uniq xs)"
  by (induction xs rule: uniq.induct) (auto simp: set_uniq)

lemma sorted_uniq: "sorted xs \<Longrightarrow> sorted (uniq xs)"
  by (induction xs rule: uniq.induct) (auto simp: set_uniq sorted_wrt_filter)

lemma length_uniq: "length (uniq xs) = card (set xs)"
  by (metis distinct_card distinct_uniq set_uniq)

lemma strict_uniq: "sorted xs \<Longrightarrow> sorted_wrt (<) (uniq xs)"
  by (simp add: strict_sorted_iff sorted_uniq distinct_uniq)

lemma sorted_expressedValues: "sorted (expressedValues ds)"
  by (simp add: expressedValues_def)

lemma sorted_le_last: "sorted xs \<Longrightarrow> x \<in> set xs \<Longrightarrow> x \<le> last xs"
  by (induction xs) auto

lemma sorted_last_Max: "sorted xs \<Longrightarrow> xs \<noteq> [] \<Longrightarrow> last xs = Max (set xs)"
  by (rule sym, rule Max_eqI) (auto simp: sorted_le_last)

lemma last_uniq_sorted: "sorted xs \<Longrightarrow> xs \<noteq> [] \<Longrightarrow> last (uniq xs) = last xs"
proof -
  assume s: "sorted xs" and n: "xs \<noteq> []"
  have "uniq xs \<noteq> []" using n by (cases xs) auto
  then have "last (uniq xs) = Max (set (uniq xs))"
    using sorted_uniq [OF s] by (rule_tac sorted_last_Max)
  then show ?thesis
    using sorted_last_Max [OF s n] by (simp add: set_uniq)
qed


subsection \<open>Natural breaks and the region classifier\<close>

lemma scanBreaks_find:
  "scanBreaks bs v = (case List.find (\<lambda>b. jsLe v (Num b)) bs of None \<Rightarrow> Overflow | Some b \<Rightarrow> Break b)"
  by (induction bs) auto

lemma scanBreaks_Break:
  "b \<in> set bs \<Longrightarrow> jsLe v (Num b) \<Longrightarrow> \<exists>b'\<in>set bs. scanBreaks bs v = Break b' \<and> jsLe v (Num b')"
  by (induction bs) auto

lemma d3Palettes_Some:
  assumes "d3Palettes lb" and "3 \<le> n" and "n \<le> 9"
  shows "\<exists>cr. schemeReds lb n = Some cr"
proof -
  have "\<forall>m\<in>{3..<10}. schemeReds lb m \<noteq> None"
    using assms(1) unfolding d3Palettes_def list_all_iff set_upt .
  moreover have "n \<in> {3..<10}" using assms(2,3) by simp
  ultimately show ?thesis by blast
qed

lemma classify_natural:
  assumes u: "5 \<le> length (uniq xs)"
    and c: "jenksContract xs (min 9 (length (uniq xs) - 1)) (jenks lb xs (min 9 (length (uniq xs) - 1)))"
    and p: "d3Palettes lb"
  shows "\<exists>cr. classify lb xs =
           Inr \<lparr>breaksArray = uniq (drop 1 (jenks lb xs (min 9 (length (uniq xs) - 1)))),
                classScale = \<lparr>domain = uniq (drop 1 (jenks lb xs (min 9 (length (uniq xs) - 1)))),
                              colorRange = cr\<rparr>\<rparr>"
proof -
  let ?bs = "uniq (drop 1 (jenks lb xs (min 9 (length (uniq xs) - 1))))"
  have two: "2 \<le> length ?bs"
    using c by (simp add: jenksContract_def length_uniq)
  show ?thesis
  proof (cases "length ?bs + 1 \<le> 9")
    case True
    then obtain cr where "schemeReds lb (length ?bs + 1) = Some cr"
      using d3Palettes_Some [OF p, of "length ?bs + 1"] two by auto
    then show ?thesis
      using u True by (simp add: classify_def Let_def)
  next
    case False
    then show ?thesis
      using u by (simp add: classify_def Let_def)
  qed
qed

lemma natural_breaks_shape:
  assumes u: "5 \<le> length (uniq xs)"
    and c: "jenksContract xs k raw"
    and k: "k = min 9 (length (uniq xs) - 1)"
  shows "sorted_wrt (<) (uniq (drop 1 raw))" and "length (uniq (drop 1 raw)) \<le> 9"
    and "last (uniq (drop 1 raw)) = last xs" and "last xs \<in> set (uniq (drop 1 raw))"
proof -
  have len: "length raw = k + 1" and s: "sorted raw" and l: "last raw = last xs"
    using c by (simp_all add: jenksContract_def)
  have k4: "1 \<le> k" using u k by simp
  have sd: "sorted (drop 1 raw)" using s by (rule sorted_wrt_drop)
  have ne: "drop 1 raw \<noteq> []" using len k4 by simp
  have ld: "last (drop 1 raw) = last raw" using len k4 by simp
  show "sorted_wrt (<) (uniq (drop 1 raw))" using sd by (rule strict_uniq)
  have "length (uniq (drop 1 raw)) \<le> length (drop 1 raw)"
    unfolding length_uniq by (rule card_length)
  then show "length (uniq (drop 1 raw)) \<le> 9" using len k by simp
  show "last (uniq (drop 1 raw)) = last xs"
    using last_uniq_sorted [OF sd ne] ld l by simp
  have "last (drop 1 raw) \<in> set (drop 1 raw)" using ne by (rule last_in_set)
  then show "last xs \<in> set (uniq (drop 1 raw))" using ld l by (simp add: set_uniq)
qed

lemma dataBreak_bounded:
  assumes "lookup n = Some r" and "expressedValue r = Num v" and "m \<in> set breaks" and "v \<le> m"
  shows "\<exists>b\<in>set breaks. dataBreak lookup breaks n = Break b \<and> v \<le> b"
proof -
  have "jsLe (Num v) (Num m)" using assms(4) by simp
  from scanBreaks_Break [OF assms(3) this] obtain b where
    "b \<in> set breaks" "scanBreaks breaks (Num v) = Break b" "jsLe (Num v) (Num b)" by blast
  then show ?thesis using assms(1,2) by (auto simp: dataBreak_def)
qed

text \<open>
  C1. For a sorted sample with at least five distinct values, \<open>classify\<close> asks
  \<open>ss.jenks\<close> for \<open>min(9, U - 1)\<close> classes, drops the first boundary and removes
  repeated boundaries. Provided the library returns its boundaries as assumed above and
  d3 has its palettes, the classification succeeds, the breaks are strictly increasing,
  there are at most nine of them, and every value of the sample is given a break by the
  region classifier: the first break that is not below it.
\<close>

theorem classify_natural_breaks:
  assumes s: "sorted xs"
    and u: "5 \<le> length (uniq xs)"
    and c: "jenksContract xs (min 9 (length (uniq xs) - 1)) (jenks lb xs (min 9 (length (uniq xs) - 1)))"
    and p: "d3Palettes lb"
  shows "\<exists>cl. classify lb xs = Inr cl
           \<and> breaksArray cl = uniq (drop 1 (jenks lb xs (min 9 (length (uniq xs) - 1))))
           \<and> domain (classScale cl) = breaksArray cl
           \<and> sorted_wrt (<) (breaksArray cl)
           \<and> length (breaksArray cl) \<le> 9
           \<and> (\<forall>v\<in>set xs. \<forall>lookup n r.
                 lookup n = Some r \<and> expressedValue r = Num v \<longrightarrow>
                 (\<exists>b\<in>set (breaksArray cl). dataBreak lookup (breaksArray cl) n = Break b \<and> v \<le> b))"
proof -
  let ?bs = "uniq (drop 1 (jenks lb xs (min 9 (length (uniq xs) - 1))))"
  from classify_natural [OF u c p] obtain cr where
    cl: "classify lb xs = Inr \<lparr>breaksArray = ?bs, classScale = \<lparr>domain = ?bs, colorRange = cr\<rparr>\<rparr>" ..
  note sh = natural_breaks_shape [OF u c refl]
  have cover: "\<exists>b\<in>set ?bs. dataBreak lookup ?bs n = Break b \<and> v \<le> b"
    if "v \<in> set xs" "lookup n = Some r" "expressedValue r = Num v" for v lookup n r
    using dataBreak_bounded [of lookup n r v "last xs" ?bs] that(2,3) sh(4)
      sorted_le_last [OF s that(1)] by blast
  show ?thesis
    using cl sh(1,2) cover by auto
qed

text \<open>
  C10. In natural-breaks mode the last break is the maximum of the sample (the boundary
  list of the library ends at the maximum and only its first entry is dropped), so the
  region classifier never answers \<open>overflow\<close> for a value of the sample.
\<close>

theorem natural_breaks_no_overflow:
  assumes s: "sorted xs"
    and u: "5 \<le> length (uniq xs)"
    and c: "jenksContract xs (min 9 (length (uniq xs) - 1)) (jenks lb xs (min 9 (length (uniq xs) - 1)))"
    and p: "d3Palettes lb"
  shows "\<exists>cl. classify lb xs = Inr cl
           \<and> last (breaksArray cl) = Max (set xs)
           \<and> (\<forall>v\<in>set xs. \<forall>lookup n r.
                 lookup n = Some r \<and> expressedValue r = Num v \<longrightarrow>
                 dataBreak lookup (breaksArray cl) n \<noteq> Overflow)"
proof -
  let ?bs = "uniq (drop 1 (jenks lb xs (min 9 (length (uniq xs) - 1))))"
  from classify_natural [OF u c p] obtain cr where
    cl: "classify lb xs = Inr \<lparr>breaksArray = ?bs, classScale = \<lparr>domain = ?bs, colorRange = cr\<rparr>\<rparr>" ..
  note sh = natural_breaks_shape [OF u c refl]
  have ne: "xs \<noteq> []" using u by auto
  have mx: "last ?bs = Max (set xs)"
    using sh(3) sorted_last_Max [OF s ne] by simp
  have "dataBreak lookup ?bs n \<noteq> Overflow"
    if "v \<in> set xs" "lookup n = Some r" "expressedValue r = Num v" for v lookup n r
    using dataBreak_bounded [of lookup n r v "last xs" ?bs] that(2,3) sh(4)
      sorted_le_last [OF s that(1)] by force
  then show ?thesis
    using cl mx by auto
qed

text \<open>
  C4. For a county whose record holds a number (not NaN), the region classifier returns
  the first break, in the order of the array, that is greater than or equal to the
  value, and \<open>overflow\<close> exactly when no break is. A value equal to a break of a
  strictly increasing break set gets that break, not the next one. The tag depends on
  the value and the breaks only: any other county or table with the same value gets the
  same tag.
\<close>

theorem dataBreak_first_break:
  assumes h: "lookup n = Some r" and v: "\<not> isNaN (expressedValue r)"
  shows "dataBreak lookup breaks n =
           (case List.find (\<lambda>b. jsLe (expressedValue r) (Num b)) breaks of
              None \<Rightarrow> Overflow | Some b \<Rightarrow> Break b)
         \<and> (dataBreak lookup breaks n = Overflow \<longleftrightarrow>
              (\<forall>b\<in>set breaks. \<not> jsLe (expressedValue r) (Num b)))
         \<and> (\<forall>i<length breaks. sorted_wrt (<) breaks \<and> expressedValue r = Num (breaks ! i) \<longrightarrow>
              dataBreak lookup breaks n = Break (breaks ! i))
         \<and> (\<forall>lookup' n' r'.
              lookup' n' = Some r' \<and> expressedValue r' = expressedValue r \<longrightarrow>
              dataBreak lookup' breaks n' = dataBreak lookup breaks n)"
proof -
  let ?P = "\<lambda>b. jsLe (expressedValue r) (Num b)"
  have eq: "dataBreak lookup breaks n = scanBreaks breaks (expressedValue r)"
    using h v by (simp add: dataBreak_def)
  have first: "dataBreak lookup breaks n =
      (case List.find ?P breaks of None \<Rightarrow> Overflow | Some b \<Rightarrow> Break b)"
    unfolding eq by (rule scanBreaks_find)
  have over: "dataBreak lookup breaks n = Overflow \<longleftrightarrow> (\<forall>b\<in>set breaks. \<not> ?P b)"
    unfolding first by (auto simp: find_None_iff find_Some_iff split: option.splits)
  have tie: "dataBreak lookup breaks n = Break (breaks ! i)"
    if i: "i < length breaks" and st: "sorted_wrt (<) breaks" and e: "expressedValue r = Num (breaks ! i)"
    for i
  proof -
    have "\<not> ?P (breaks ! j)" if "j < i" for j
      using sorted_wrt_nth_less [OF st that i] e by simp
    moreover have "?P (breaks ! i)" using e by simp
    ultimately have "List.find ?P breaks = Some (breaks ! i)"
      using i unfolding find_Some_iff by blast
    then show ?thesis unfolding first by simp
  qed
  have det: "dataBreak lookup' breaks n' = dataBreak lookup breaks n"
    if "lookup' n' = Some r'" "expressedValue r' = expressedValue r" for lookup' n' r'
    using that v unfolding eq by (simp add: dataBreak_def)
  show ?thesis
    using first over tie det by blast
qed

lemma uniq_sample: "uniq sample = [1, 2, 3, 4, 5, 6, 7, 8, 9, 100]"
  by (simp add: sample_def)

theorem dataBreak_first_break_witness:
  "sampleLookup ''Dane'' = Some \<lparr>county = ''Dane'', rawValue = ''5'', expressedValue = Num 5\<rparr>
   \<and> \<not> isNaN (expressedValue \<lparr>county = ''Dane'', rawValue = ''5'', expressedValue = Num 5\<rparr>)
   \<and> dataBreak sampleLookup [2, 5, 9] ''Dane'' = Break 5"
proof -
  let ?r = "\<lparr>county = ''Dane'', rawValue = ''5'', expressedValue = Num 5\<rparr>"
  have h1: "sampleLookup ''Dane'' = Some ?r"
    by (simp add: sampleLookup_def)
  have h2: "\<not> isNaN (expressedValue ?r)"
    by simp
  have "\<forall>i<length [2, 5, 9 :: real]. sorted_wrt (<) [2, 5, 9 :: real]
          \<and> expressedValue ?r = Num ([2, 5, 9] ! i) \<longrightarrow>
          dataBreak sampleLookup [2, 5, 9] ''Dane'' = Break ([2, 5, 9] ! i)"
    using dataBreak_first_break [of sampleLookup "''Dane''" ?r "[2, 5, 9]"] h1 h2 by blast
  from this [rule_format, of 1] have "dataBreak sampleLookup [2, 5, 9] ''Dane'' = Break 5"
    by simp
  with h1 h2 show ?thesis by blast
qed

theorem classify_natural_breaks_witness:
  "sorted sample \<and> 5 \<le> length (uniq sample)
   \<and> jenksContract sample (min 9 (length (uniq sample) - 1))
        (jenks sampleLib sample (min 9 (length (uniq sample) - 1)))
   \<and> d3Palettes sampleLib
   \<and> (\<exists>cl. classify sampleLib sample = Inr cl
         \<and> breaksArray cl = [3, 4, 5, 6, 7, 8, 9, 100]
         \<and> sorted_wrt (<) (breaksArray cl) \<and> length (breaksArray cl) \<le> 9
         \<and> (\<exists>b\<in>set (breaksArray cl). dataBreak sampleLookup (breaksArray cl) ''Dane'' = Break b))"
proof -
  have h1: "sorted sample"
    by (simp add: sample_def)
  have h2: "5 \<le> length (uniq sample)"
    by (simp add: uniq_sample)
  have h3: "jenksContract sample (min 9 (length (uniq sample) - 1))
              (jenks sampleLib sample (min 9 (length (uniq sample) - 1)))"
    by (simp add: uniq_sample jenksContract_def sampleLib_def sample_def)
  have h4: "d3Palettes sampleLib"
    by (simp add: d3Palettes_def sampleLib_def)
  from classify_natural_breaks [OF h1 h2 h3 h4] obtain cl where
    c: "classify sampleLib sample = Inr cl"
    and b: "breaksArray cl = uniq (drop 1 (jenks sampleLib sample (min 9 (length (uniq sample) - 1))))"
    and s: "sorted_wrt (<) (breaksArray cl)" and l: "length (breaksArray cl) \<le> 9"
    and a: "\<forall>v\<in>set sample. \<forall>lookup n r.
                 lookup n = Some r \<and> expressedValue r = Num v \<longrightarrow>
                 (\<exists>b\<in>set (breaksArray cl). dataBreak lookup (breaksArray cl) n = Break b \<and> v \<le> b)"
    by blast
  have b': "breaksArray cl = [3, 4, 5, 6, 7, 8, 9, 100]"
    unfolding b by (simp add: sampleLib_def)
  have "5 \<in> set sample" by (simp add: sample_def)
  with a have "\<exists>b\<in>set (breaksArray cl). dataBreak sampleLookup (breaksArray cl) ''Dane'' = Break b \<and> 5 \<le> b"
    by (simp add: sampleLookup_def)
  with c b' s l h1 h2 h3 h4 show ?thesis by blast
qed

theorem natural_breaks_no_overflow_witness:
  "sorted sample \<and> 5 \<le> length (uniq sample)
   \<and> jenksContract sample (min 9 (length (uniq sample) - 1))
        (jenks sampleLib sample (min 9 (length (uniq sample) - 1)))
   \<and> d3Palettes sampleLib
   \<and> (\<exists>cl. classify sampleLib sample = Inr cl
         \<and> last (breaksArray cl) = 100
         \<and> dataBreak sampleLookup (breaksArray cl) ''Dane'' \<noteq> Overflow)"
proof -
  have h1: "sorted sample"
    by (simp add: sample_def)
  have h2: "5 \<le> length (uniq sample)"
    by (simp add: uniq_sample)
  have h3: "jenksContract sample (min 9 (length (uniq sample) - 1))
              (jenks sampleLib sample (min 9 (length (uniq sample) - 1)))"
    by (simp add: uniq_sample jenksContract_def sampleLib_def sample_def)
  have h4: "d3Palettes sampleLib"
    by (simp add: d3Palettes_def sampleLib_def)
  from natural_breaks_no_overflow [OF h1 h2 h3 h4] obtain cl where
    c: "classify sampleLib sample = Inr cl"
    and m: "last (breaksArray cl) = Max (set sample)"
    and a: "\<forall>v\<in>set sample. \<forall>lookup n r.
                 lookup n = Some r \<and> expressedValue r = Num v \<longrightarrow>
                 dataBreak lookup (breaksArray cl) n \<noteq> Overflow"
    by blast
  have m': "last (breaksArray cl) = 100"
    unfolding m by (simp add: sample_def)
  have "5 \<in> set sample" by (simp add: sample_def)
  with a have "dataBreak sampleLookup (breaksArray cl) ''Dane'' \<noteq> Overflow"
    by (simp add: sampleLookup_def)
  with c m' h1 h2 h3 h4 show ?thesis by blast
qed

subsection \<open>The threshold scale on a sorted domain\<close>

lemma bisectRight_split:
  assumes "sorted a" and "lo \<le> hi" and "hi \<le> length a"
    and "\<forall>j<lo. a ! j \<le> x" and "\<forall>j. hi \<le> j \<and> j < length a \<longrightarrow> x < a ! j"
  shows "lo \<le> bisectRight a (Num x) lo hi \<and> bisectRight a (Num x) lo hi \<le> hi
         \<and> (\<forall>j<bisectRight a (Num x) lo hi. a ! j \<le> x)
         \<and> (\<forall>j. bisectRight a (Num x) lo hi \<le> j \<and> j < length a \<longrightarrow> x < a ! j)"
  using assms
proof (induction a "Num x" lo hi rule: bisectRight.induct)
  case (1 a lo hi)
  let ?mid = "(lo + hi) div 2"
  show ?case
  proof (cases "lo < hi")
    case False
    then have "bisectRight a (Num x) lo hi = lo"
      by (simp add: bisectRight.simps [of a "Num x" lo hi])
    with False "1.prems" show ?thesis by auto
  next
    case True
    then have m: "lo \<le> ?mid" "?mid < hi" by auto
    show ?thesis
    proof (cases "a ! ?mid \<le> x")
      case le: True
      have below: "\<forall>j<?mid + 1. a ! j \<le> x"
      proof (intro allI impI)
        fix j assume "j < ?mid + 1"
        then have "a ! j \<le> a ! ?mid"
          using sorted_nth_mono [OF "1.prems"(1), of j ?mid] m "1.prems"(3) by simp
        with le show "a ! j \<le> x" by simp
      qed
      have eq: "bisectRight a (Num x) lo hi = bisectRight a (Num x) (?mid + 1) hi"
        using True le by (simp add: bisectRight.simps [of a "Num x" lo hi])
      have "?mid + 1 \<le> bisectRight a (Num x) (?mid + 1) hi
            \<and> bisectRight a (Num x) (?mid + 1) hi \<le> hi
            \<and> (\<forall>j<bisectRight a (Num x) (?mid + 1) hi. a ! j \<le> x)
            \<and> (\<forall>j. bisectRight a (Num x) (?mid + 1) hi \<le> j \<and> j < length a \<longrightarrow> x < a ! j)"
        using "1.hyps"(1) [OF True _ "1.prems"(1) _ "1.prems"(3) below "1.prems"(5)] le m by simp
      then show ?thesis unfolding eq using m by auto
    next
      case gt: False
      have above: "\<forall>j. ?mid \<le> j \<and> j < length a \<longrightarrow> x < a ! j"
      proof (intro allI impI)
        fix j assume "?mid \<le> j \<and> j < length a"
        then have "a ! ?mid \<le> a ! j"
          using sorted_nth_mono [OF "1.prems"(1), of ?mid j] by simp
        with gt show "x < a ! j" by simp
      qed
      have eq: "bisectRight a (Num x) lo hi = bisectRight a (Num x) lo ?mid"
        using True gt by (simp add: bisectRight.simps [of a "Num x" lo hi])
      have "lo \<le> bisectRight a (Num x) lo ?mid
            \<and> bisectRight a (Num x) lo ?mid \<le> ?mid
            \<and> (\<forall>j<bisectRight a (Num x) lo ?mid. a ! j \<le> x)
            \<and> (\<forall>j. bisectRight a (Num x) lo ?mid \<le> j \<and> j < length a \<longrightarrow> x < a ! j)"
        using "1.hyps"(2) [OF True _ "1.prems"(1) _ _ "1.prems"(4) above] gt m "1.prems"(3) by simp
      then show ?thesis unfolding eq using m by auto
    qed
  qed
qed

lemma bisectRight_at_break:
  assumes st: "sorted_wrt (<) a" and i: "i < length a"
  shows "bisectRight a (Num (a ! i)) 0 (length a) = i + 1"
proof -
  have s: "sorted a" using st by (simp add: strict_sorted_iff)
  let ?p = "bisectRight a (Num (a ! i)) 0 (length a)"
  from bisectRight_split [OF s, of 0 "length a" "a ! i"]
  have le: "?p \<le> length a" and lo: "\<forall>j<?p. a ! j \<le> a ! i"
    and hi: "\<forall>j. ?p \<le> j \<and> j < length a \<longrightarrow> a ! i < a ! j"
    by simp_all
  have "i < ?p"
  proof (rule ccontr)
    assume "\<not> i < ?p"
    then have "a ! i < a ! i" using hi [rule_format, of i] i by simp
    then show False by simp
  qed
  moreover have "?p \<le> i + 1"
  proof (rule ccontr)
    assume "\<not> ?p \<le> i + 1"
    then have "i + 1 < ?p" by simp
    then have "a ! (i + 1) \<le> a ! i" using lo [rule_format, of "i + 1"] by simp
    moreover have "a ! i < a ! (i + 1)"
      using sorted_wrt_nth_less [OF st, of i "i + 1"] \<open>i + 1 < ?p\<close> le by simp
    ultimately show False by simp
  qed
  ultimately show ?thesis by simp
qed

lemma break_gets_next_colour:
  assumes "sorted_wrt (<) (domain sc)" and "length (colorRange sc) = length (domain sc) + 1"
    and "i < length (domain sc)"
  shows "scaleThreshold sc (Num (domain sc ! i)) = Some (colorRange sc ! (i + 1))"
  using assms bisectRight_at_break [OF assms(1,3)] by (simp add: scaleThreshold_def)

subsection \<open>The rectangle of a bubble\<close>

lemma clamp_bounds: "(lo::real) \<le> hi \<Longrightarrow> lo \<le> max lo (min x hi) \<and> max lo (min x hi) \<le> hi"
  by auto

lemma reclamp_bounds:
  assumes "textWidth + 24 \<le> maxX" and "40 \<le> maxY"
  shows "(textWidth + 12) / 2 + 6 \<le> fst (reclamp textWidth maxX maxY p)"
    and "fst (reclamp textWidth maxX maxY p) \<le> maxX - (textWidth + 12) / 2 - 6"
    and "20 \<le> snd (reclamp textWidth maxX maxY p)"
    and "snd (reclamp textWidth maxX maxY p) \<le> maxY - 20"
proof -
  have x: "(textWidth + 12) / 2 + 6 \<le> maxX - (textWidth + 12) / 2 - 6"
    using assms(1) by (simp add: field_simps)
  have y: "(20::real) \<le> maxY - 20"
    using assms(2) by simp
  show "(textWidth + 12) / 2 + 6 \<le> fst (reclamp textWidth maxX maxY p)"
    and "fst (reclamp textWidth maxX maxY p) \<le> maxX - (textWidth + 12) / 2 - 6"
    using clamp_bounds [OF x, of "fst p"] by (simp_all add: reclamp_def Let_def)
  show "20 \<le> snd (reclamp textWidth maxX maxY p)"
    and "snd (reclamp textWidth maxX maxY p) \<le> maxY - 20"
    using clamp_bounds [OF y, of "snd p"] by (simp_all add: reclamp_def Let_def)
qed

lemma bubble_bounds:
  assumes "textWidth + 24 \<le> maxX" and "40 \<le> maxY"
  shows "6 \<le> rectX (placeBubble textWidth maxX maxY p)"
    and "rectX (placeBubble textWidth maxX maxY p) + rectWidth (placeBubble textWidth maxX maxY p) \<le> maxX - 6"
    and "4 \<le> rectY (placeBubble textWidth maxX maxY p)"
    and "rectY (placeBubble textWidth maxX maxY p) + rectHeight (placeBubble textWidth maxX maxY p) \<le> maxY - 8"
  using reclamp_bounds [OF assms, of p]
  by (simp_all add: placeBubble_def bubbleRect_def Let_def add_divide_distrib)

subsection \<open>The negative zero\<close>

text \<open>
  A record whose value is the negative zero is tagged and coloured like a record with
  the zero, the value that stands for it in the numeric sample.
\<close>

lemma scanBreaks_negative_zero: "scanBreaks breaks NegZero = scanBreaks breaks (Num 0)"
  by (induction breaks) simp_all

lemma dataBreak_negative_zero:
  "lookup n = Some r \<Longrightarrow> expressedValue r = NegZero \<Longrightarrow>
   dataBreak lookup breaks n = scanBreaks breaks (Num 0)"
  by (simp add: dataBreak_def scanBreaks_negative_zero)

lemma bisectRight_negative_zero: "bisectRight a NegZero lo hi = bisectRight a (Num 0) lo hi"
proof (induction a "Num 0" lo hi rule: bisectRight.induct)
  case (1 a lo hi)
  then show ?case
    by (subst (1 2) bisectRight.simps) simp
qed

lemma scaleThreshold_negative_zero: "scaleThreshold sc NegZero = scaleThreshold sc (Num 0)"
  by (simp add: scaleThreshold_def bisectRight_negative_zero)

subsection \<open>Evaluations at concrete inputs\<close>

lemma classify_few_distinct:
  "length (uniq xs) < 5 \<Longrightarrow>
   classify lb xs = Inl (case schemeReds lb 5 of None \<Rightarrow> TypeError | Some u \<Rightarrow> ReferenceError ''colorScale'')"
  by (simp add: classify_def Let_def split: option.splits)

text \<open>
  C3. With fewer than five distinct values the callback takes the quantile branch, but
  it never gets to the four quantile breaks: the assignment to the undeclared
  \<open>colorScale\<close> throws. For the sample 3, 3, 3, 5 (two distinct values) the
  classification ends with the ReferenceError instead of a break set.
\<close>

theorem quantile_branch_throws:
  "length (uniq [3, 3, 3, 5 :: real]) = 2
   \<and> classify sampleLib [3, 3, 3, 5] = Inl (ReferenceError ''colorScale'')"
  by (simp add: classify_def sampleLib_def)

lemma gap_rows:
  "map (parseRow ''rate'') (csvRows gapTable)
     = [\<lparr>county = ''Adams'', rawValue = ''1'', expressedValue = Num 1\<rparr>,
        \<lparr>county = ''Dane'', rawValue = [], expressedValue = Num 0\<rparr>,
        \<lparr>county = ''Brown'', rawValue = ''2'', expressedValue = Num 2\<rparr>,
        \<lparr>county = ''Clark'', rawValue = ''3'', expressedValue = Num 3\<rparr>,
        \<lparr>county = ''Door'', rawValue = ''4'', expressedValue = Num 4\<rparr>,
        \<lparr>county = ''Dunn'', rawValue = ''5'', expressedValue = Num 5\<rparr>]"
  by (simp add: gapTable_def parseRow_def tableRow_def parse_cells)

lemma gap_values: "expressedValues (map (parseRow ''rate'') (csvRows gapTable)) = [0, 1, 2, 3, 4, 5]"
  unfolding gap_rows by (simp add: expressedValues_def List.map_filter_simps)

lemma gap_lookup:
  "buildLookup (map (parseRow ''rate'') (csvRows gapTable)) ''Adams''
     = Some \<lparr>county = ''Adams'', rawValue = ''1'', expressedValue = Num 1\<rparr>"
  "buildLookup (map (parseRow ''rate'') (csvRows gapTable)) ''Dane''
     = Some \<lparr>county = ''Dane'', rawValue = [], expressedValue = Num 0\<rparr>"
  "buildLookup (map (parseRow ''rate'') (csvRows gapTable)) ''Brown''
     = Some \<lparr>county = ''Brown'', rawValue = ''2'', expressedValue = Num 2\<rparr>"
  unfolding gap_rows by (simp_all add: buildLookup_def)

lemma gap_classify:
  "classify gapLib [0, 1, 2, 3, 4, 5]
     = Inr \<lparr>breaksArray = [1, 2, 3, 4, 5],
            classScale = \<lparr>domain = [1, 2, 3, 4, 5], colorRange = paletteOf 6\<rparr>\<rparr>"
  by (simp add: classify_def gapLib_def sampleLib_def Let_def paletteOf_def upt_rec)

text \<open>
  C7. A cell that is the empty string is not made invalid: \<open>+""\<close> is the number 0.
  In a table of six counties the value 0 of the empty cell enters the numeric sample,
  the county is given the first break, and when that break is highlighted the guard
  \<open>rawValue !== ""\<close> compares the number with the empty string, lets it through, and
  the county is labelled \<open>0\<close>.
\<close>

theorem empty_cell_is_zero:
  "parseValue [] = Num 0
   \<and> expressedValues (map (parseRow ''rate'') (csvRows gapTable)) = [0, 1, 2, 3, 4, 5]
   \<and> classify gapLib (expressedValues (map (parseRow ''rate'') (csvRows gapTable)))
       = Inr \<lparr>breaksArray = [1, 2, 3, 4, 5],
              classScale = \<lparr>domain = [1, 2, 3, 4, 5], colorRange = paletteOf 6\<rparr>\<rparr>
   \<and> dataBreak (buildLookup (map (parseRow ''rate'') (csvRows gapTable))) [1, 2, 3, 4, 5] ''Dane''
       = Break 1
   \<and> labelData (buildLookup (map (parseRow ''rate'') (csvRows gapTable))) [1, 2, 3, 4, 5]
         [''Adams'', ''Dane'', ''Brown''] 1
       = [(''Adams'', ''1''), (''Dane'', ''0'')]"
proof -
  let ?L = "map (parseRow ''rate'') (csvRows gapTable)"
  note look = gap_lookup
  have tags: "dataBreak (buildLookup ?L) [1, 2, 3, 4, 5] ''Adams'' = Break 1"
    "dataBreak (buildLookup ?L) [1, 2, 3, 4, 5] ''Dane'' = Break 1"
    "dataBreak (buildLookup ?L) [1, 2, 3, 4, 5] ''Brown'' = Break 2"
    by (simp_all add: dataBreak_def look)
  have labels: "labelData (buildLookup ?L) [1, 2, 3, 4, 5] [''Adams'', ''Dane'', ''Brown''] 1
      = [(''Adams'', ''1''), (''Dane'', ''0'')]"
    by (simp add: labelData_def tags matchesBreak_def List.map_filter_simps labelRawValue_def
        labelText_def look formatNumber_small)
  show ?thesis
    using parse_cells(1) gap_values gap_classify tags(2) labels by simp
qed

text \<open>
  C9. The new position keeps the centre of the label 14 units (half the bubble's height)
  plus the padding away from the top and the bottom, but the rectangle is inserted 16
  units above the centre. For a label at the top of an 800 by 600 view box the top edge
  of the bubble is 4 units from the border, less than the padding of 6.
\<close>

theorem bubble_top_edge:
  "placeBubble 50 800 600 (100, 10) = \<lparr>rectX = 69, rectY = 4, rectWidth = 62, rectHeight = 28\<rparr>
   \<and> \<not> withinPadding 6 800 600 (placeBubble 50 800 600 (100, 10))"
  by (simp add: placeBubble_def bubbleRect_def reclamp_def withinPadding_def Let_def)

lemma palettes:
  "paletteOf 4 = [''c0'', ''c1'', ''c2'', ''c3'']"
  "paletteOf 6 = [''c0'', ''c1'', ''c2'', ''c3'', ''c4'', ''c5'']"
  by (simp_all add: paletteOf_def upt_rec)

lemma gap_scale:
  "scaleThreshold \<lparr>domain = [1, 2, 3, 4, 5], colorRange = paletteOf 6\<rparr> (Num 0) = Some ''c0''"
  "scaleThreshold \<lparr>domain = [1, 2, 3, 4, 5], colorRange = paletteOf 6\<rparr> (Num 1) = Some ''c1''"
  "scaleThreshold \<lparr>domain = [1, 2, 3, 4, 5], colorRange = paletteOf 6\<rparr> (Num 2) = Some ''c2''"
  "scaleThreshold \<lparr>domain = [1, 2, 3, 4, 5], colorRange = paletteOf 6\<rparr> (Num 3) = Some ''c3''"
  "scaleThreshold \<lparr>domain = [1, 2, 3, 4, 5], colorRange = paletteOf 6\<rparr> (Num 4) = Some ''c4''"
  "scaleThreshold \<lparr>domain = [1, 2, 3, 4, 5], colorRange = paletteOf 6\<rparr> (Num 5) = Some ''c5''"
  "scaleThreshold \<lparr>domain = [1, 2, 3, 4, 5], colorRange = paletteOf 6\<rparr> NaN = None"
  by (simp_all add: scaleThreshold_def palettes bisectRight.simps)

text \<open>
  C2. The scale gives a value below the first break the first colour, but a value equal
  to a break the colour of the next bucket, although the region classifier assigns that
  value to the break's own bucket. With the breaks 2, 5, 9 and four colours: the value
  2 is drawn in colour 1 and tagged with the break 2; the value 9, the last break, is
  drawn like the value 10 beyond it; and the chart's circle of every break has the
  colour of the bucket above it. In the table of six counties above, Adams (value 1)
  and Dane (value 0) carry the same tag, the break 1, and are filled with different
  colours.
\<close>

theorem threshold_boundary_colour:
  "scaleThreshold sampleScale (Num 1) = Some ''c0''
   \<and> scaleThreshold sampleScale (Num 2) = Some ''c1''
   \<and> dataBreak [''Dane'' \<mapsto> \<lparr>county = ''Dane'', rawValue = ''2'', expressedValue = Num 2\<rparr>]
         [2, 5, 9] ''Dane'' = Break 2
   \<and> scaleThreshold sampleScale (Num 9) = Some ''c3''
   \<and> scaleThreshold sampleScale (Num 10) = Some ''c3''
   \<and> scanBreaks [2, 5, 9] (Num 9) = Break 9
   \<and> scanBreaks [2, 5, 9] (Num 10) = Overflow
   \<and> setChart sampleScale [2, 5, 9]
       = DrawChart [(2, Some ''c1''), (5, Some ''c2''), (9, Some ''c3'')]
   \<and> setCounties \<lparr>domain = [1, 2, 3, 4, 5], colorRange = paletteOf 6\<rparr>
         (buildLookup (map (parseRow ''rate'') (csvRows gapTable))) [1, 2, 3, 4, 5] [''Adams'', ''Dane'']
       = [DrawCounty ''Adams'' (Some ''c1'') (Break 1), DrawCounty ''Dane'' (Some ''c0'') (Break 1)]"
proof -
  have c: "scaleThreshold sampleScale (Num 1) = Some ''c0''"
    "scaleThreshold sampleScale (Num 2) = Some ''c1''"
    "scaleThreshold sampleScale (Num 5) = Some ''c2''"
    "scaleThreshold sampleScale (Num 9) = Some ''c3''"
    "scaleThreshold sampleScale (Num 10) = Some ''c3''"
    by (simp_all add: scaleThreshold_def sampleScale_def palettes bisectRight.simps)
  have s: "setCounties \<lparr>domain = [1, 2, 3, 4, 5], colorRange = paletteOf 6\<rparr>
         (buildLookup (map (parseRow ''rate'') (csvRows gapTable))) [1, 2, 3, 4, 5] [''Adams'', ''Dane'']
       = [DrawCounty ''Adams'' (Some ''c1'') (Break 1), DrawCounty ''Dane'' (Some ''c0'') (Break 1)]"
    by (simp add: setCounties_def countyFill_def dataBreak_def gap_lookup gap_scale)
  show ?thesis
    unfolding s by (simp add: c setChart_def dataBreak_def)
qed

subsection \<open>The lookup table as property lookup sees it\<close>

text \<open>
  For a table with a \<open>county\<close> column and a selected field that is another of its
  columns, the loop stores what \<open>parseRow\<close> gives, and a county with a row is looked up
  as in the table of the rows.
\<close>

lemma readRow_parseRow:
  "ownColumn csvData ''county'' \<Longrightarrow> ownColumn csvData field \<Longrightarrow> field \<noteq> ''county'' \<Longrightarrow>
   readRow lb csvData field d = parseRow field d"
  by (simp add: readRow_def parseRow_def countyKey_def cellOf_def)

lemma readRows_parseRow:
  "ownColumn csvData ''county'' \<Longrightarrow> ownColumn csvData field \<Longrightarrow> field \<noteq> ''county'' \<Longrightarrow>
   readRows lb csvData field = map (parseRow field) (csvRows csvData)"
  by (simp add: readRows_def readRow_parseRow)

lemma lookupView_row:
  "buildLookup (readRows lb csvData field) name = Some r \<Longrightarrow>
   lookupView lb csvData field name = Some r"
  by (simp add: lookupView_def)

lemma gap_readRows: "readRows lb gapTable ''rate'' = map (parseRow ''rate'') (csvRows gapTable)"
  by (rule readRows_parseRow) (simp_all add: ownColumn_def gapTable_def)

lemma gap_view:
  "lookupView lb gapTable ''rate'' ''Adams''
     = buildLookup (map (parseRow ''rate'') (csvRows gapTable)) ''Adams''"
  "lookupView lb gapTable ''rate'' ''Dane''
     = buildLookup (map (parseRow ''rate'') (csvRows gapTable)) ''Dane''"
  "lookupView lb gapTable ''rate'' ''Brown''
     = buildLookup (map (parseRow ''rate'') (csvRows gapTable)) ''Brown''"
  by (simp_all add: lookupView_row gap_readRows gap_lookup)

text \<open>
  A feature named like a property that every object inherits finds that built-in
  where it has no row. The built-in is truthy, so the county is not grey: its value is
  no number, the scale has no colour for it, and it gets no fill at all.
\<close>

lemma inherited_name:
  assumes "buildLookup (readRows lb csvData field) name = None"
    and "\<forall>d \<in> set (csvRows csvData). countyKey lb csvData field d \<noteq> ''__proto__''"
    and "name \<in> set objectPrototype"
    and "fieldNumber lb (Inherited name) field = NaN"
  shows "countyFill sc (lookupView lb csvData field) name = None"
    and "dataBreak (lookupView lb csvData field) breaks name = NoData"
proof -
  have "filter (\<lambda>d. countyKey lb csvData field d = ''__proto__'') (csvRows csvData) = []"
    using assms(2) by (simp add: filter_empty_conv)
  then have "lookupView lb csvData field name
      = Some \<lparr>county = [], rawValue = [], expressedValue = NaN\<rparr>"
    using assms(1,3,4) by (simp add: lookupView_def inheritedEntry_def foundEntry_def)
  then show "countyFill sc (lookupView lb csvData field) name = None"
    and "dataBreak (lookupView lb csvData field) breaks name = NoData"
    by (simp_all add: countyFill_def dataBreak_def scaleThreshold_def)
qed

lemma constructor_county:
  "countyFill sc (lookupView gapLib gapTable ''rate'') ''constructor'' = None"
  "dataBreak (lookupView gapLib gapTable ''rate'') breaks ''constructor'' = NoData"
  "countyFill sc (lookupView gapLib gapTable ''rate'') ''Iron'' = Some ''#ccc''"
proof -
  have rows: "buildLookup (readRows gapLib gapTable ''rate'') ''constructor'' = None"
    "buildLookup (readRows gapLib gapTable ''rate'') ''Iron'' = None"
    unfolding gap_readRows gap_rows by (simp_all add: buildLookup_def)
  have keys: "\<forall>d \<in> set (csvRows gapTable). countyKey gapLib gapTable ''rate'' d \<noteq> ''__proto__''"
    by (simp add: gapTable_def countyKey_def ownColumn_def tableRow_def)
  have nan: "fieldNumber gapLib (Inherited ''constructor'') ''rate'' = NaN"
    by (simp add: gapLib_def sampleLib_def)
  show "countyFill sc (lookupView gapLib gapTable ''rate'') ''constructor'' = None"
    "dataBreak (lookupView gapLib gapTable ''rate'') breaks ''constructor'' = NoData"
    using inherited_name [OF rows(1) keys _ nan] by (simp_all add: objectPrototype_def)
  have "filter (\<lambda>d. countyKey gapLib gapTable ''rate'' d = ''__proto__'') (csvRows gapTable) = []"
    using keys by (simp add: filter_empty_conv)
  then have "lookupView gapLib gapTable ''rate'' ''Iron'' = None"
    using rows(2) by (simp add: lookupView_def inheritedEntry_def objectPrototype_def)
  then show "countyFill sc (lookupView gapLib gapTable ''rate'') ''Iron'' = Some ''#ccc''"
    by (simp add: countyFill_def)
qed

subsection \<open>Too few values\<close>

lemma health_columns:
  "ownColumn healthTable ''county''" "ownColumn healthTable ''rate''"
  "ownColumn healthTable ''cases''"
  by (simp_all add: ownColumn_def healthTable_def)

lemma health_rows:
  "csvRows healthTable
     = healthRow ''Adams'' ''1'' ''7''
       # [healthRow ''Dane'' [] ''1e400'', healthRow ''Brown'' ''2'' ''n/a'',
          healthRow ''Clark'' ''3'' ''n/a'', healthRow ''Door'' ''4'' ''n/a'',
          healthRow ''Dunn'' ''5'' ''n/a'']"
  by (simp add: healthTable_def)

lemma health_numericColumns:
  "numericColumns healthTable (healthRow ''Adams'' ''1'' ''7'') = [''rate'', ''cases'']"
  by (simp add: numericColumns_def cellOf_def health_columns healthRow_def numeric_cells
      healthTable_def ownColumn_def)

lemma health_rate:
  "readRows lb healthTable ''rate''
     = [\<lparr>county = ''Adams'', rawValue = ''1'', expressedValue = Num 1\<rparr>,
        \<lparr>county = ''Dane'', rawValue = [], expressedValue = Num 0\<rparr>,
        \<lparr>county = ''Brown'', rawValue = ''2'', expressedValue = Num 2\<rparr>,
        \<lparr>county = ''Clark'', rawValue = ''3'', expressedValue = Num 3\<rparr>,
        \<lparr>county = ''Door'', rawValue = ''4'', expressedValue = Num 4\<rparr>,
        \<lparr>county = ''Dunn'', rawValue = ''5'', expressedValue = Num 5\<rparr>]"
proof -
  have "readRows lb healthTable ''rate'' = map (parseRow ''rate'') (csvRows healthTable)"
    by (rule readRows_parseRow) (simp_all add: health_columns)
  then show ?thesis
    by (simp add: health_rows parseRow_def healthRow_def parse_cells)
qed

lemma health_cases:
  "readRows lb healthTable ''cases''
     = [\<lparr>county = ''Adams'', rawValue = ''7'', expressedValue = Num 7\<rparr>,
        \<lparr>county = ''Dane'', rawValue = ''1e400'', expressedValue = PosInf\<rparr>,
        \<lparr>county = ''Brown'', rawValue = ''n/a'', expressedValue = NaN\<rparr>,
        \<lparr>county = ''Clark'', rawValue = ''n/a'', expressedValue = NaN\<rparr>,
        \<lparr>county = ''Door'', rawValue = ''n/a'', expressedValue = NaN\<rparr>,
        \<lparr>county = ''Dunn'', rawValue = ''n/a'', expressedValue = NaN\<rparr>]"
proof -
  have "readRows lb healthTable ''cases'' = map (parseRow ''cases'') (csvRows healthTable)"
    by (rule readRows_parseRow) (simp_all add: health_columns)
  then show ?thesis
    by (simp add: health_rows parseRow_def healthRow_def parse_cells)
qed

lemma health_values:
  "expressedValues (readRows lb healthTable ''rate'') = [0, 1, 2, 3, 4, 5]"
  "expressedValues (readRows lb healthTable ''cases'') = [7]"
  unfolding health_rate health_cases by (simp_all add: expressedValues_def List.map_filter_simps)

lemma health_view:
  "lookupView lb healthTable ''rate'' ''Adams''
     = Some \<lparr>county = ''Adams'', rawValue = ''1'', expressedValue = Num 1\<rparr>"
  "lookupView lb healthTable ''rate'' ''Dane''
     = Some \<lparr>county = ''Dane'', rawValue = [], expressedValue = Num 0\<rparr>"
  "lookupView lb healthTable ''cases'' ''Adams''
     = Some \<lparr>county = ''Adams'', rawValue = ''7'', expressedValue = Num 7\<rparr>"
  "lookupView lb healthTable ''cases'' ''Dane''
     = Some \<lparr>county = ''Dane'', rawValue = ''1e400'', expressedValue = PosInf\<rparr>"
  by (rule lookupView_row, simp add: health_rate health_cases buildLookup_def)+

lemma health_counties:
  "setCounties \<lparr>domain = [1, 2, 3, 4, 5], colorRange = paletteOf 6\<rparr>
       (lookupView lb healthTable ''rate'') [1, 2, 3, 4, 5] healthFeatures
     = [DrawCounty ''Adams'' (Some ''c1'') (Break 1), DrawCounty ''Dane'' (Some ''c0'') (Break 1)]"
  by (simp add: setCounties_def healthFeatures_def countyFill_def dataBreak_def health_view
      gap_scale)

lemma health_chart:
  "setChart \<lparr>domain = [1, 2, 3, 4, 5], colorRange = paletteOf 6\<rparr> [1, 2, 3, 4, 5]
     = DrawChart [(1, Some ''c1''), (2, Some ''c2''), (3, Some ''c3''), (4, Some ''c4''),
                  (5, Some ''c5'')]"
  by (simp add: setChart_def gap_scale)

text \<open>
  The first run on the table of two fields: nothing is selected yet, so the first
  eligible column, \<open>rate\<close>, is; its six values are classified and everything is drawn.
\<close>

lemma first_load:
  "setMap gapLib healthTable healthFeatures initialState
     = (None,
        \<lparr>expressed = Some ''rate'', isRatioField = False,
         healthByCounty = lookupView gapLib healthTable ''rate'',
         attrArray = [''rate'', ''cases''],
         colorScale = Some \<lparr>domain = [1, 2, 3, 4, 5], colorRange = paletteOf 6\<rparr>,
         alerts = [],
         drawn = [DrawMap, DrawTooltip, DrawStates,
                  DrawCounty ''Adams'' (Some ''c1'') (Break 1),
                  DrawCounty ''Dane'' (Some ''c0'') (Break 1),
                  DrawChart [(1, Some ''c1''), (2, Some ''c2''), (3, Some ''c3''),
                             (4, Some ''c4''), (5, Some ''c5'')],
                  DrawDropdown [''rate'', ''cases'']]\<rparr>)"
proof -
  have r: "isRatioCell (cellOf healthTable (healthRow ''Adams'' ''1'' ''7'') ''rate'') = False"
    by (simp add: cellOf_def health_columns healthRow_def isRatioCell_def)
  show ?thesis
    by (simp add: setMap_def callback_def health_rows Let_def health_numericColumns
        initialState_def selectField_def fieldName_def health_columns r health_values
        gap_classify health_counties health_chart createDropdown_def)
qed

lemma loaded_state:
  "loaded
     = \<lparr>expressed = Some ''rate'', isRatioField = False,
        healthByCounty = lookupView gapLib healthTable ''rate'',
        attrArray = [''rate'', ''cases''],
        colorScale = Some \<lparr>domain = [1, 2, 3, 4, 5], colorRange = paletteOf 6\<rparr>,
        alerts = [],
        drawn = [DrawMap, DrawTooltip, DrawStates,
                 DrawCounty ''Adams'' (Some ''c1'') (Break 1),
                 DrawCounty ''Dane'' (Some ''c0'') (Break 1),
                 DrawChart [(1, Some ''c1''), (2, Some ''c2''), (3, Some ''c3''),
                            (4, Some ''c4''), (5, Some ''c5'')],
                 DrawDropdown [''rate'', ''cases'']]\<rparr>"
  by (simp add: loaded_def first_load)

text \<open>The call of the callback that choosing an option of the dropdown leads to.\<close>

lemma dropdownChange_callback:
  "dropdownChange lb csvData features choice st
     = callback lb csvData features
         (st\<lparr>expressed := Some choice,
             drawn := filter (\<lambda>d. \<not> inSvg d) (drawn st) @ [DrawMap, DrawTooltip]\<rparr>)"
  by (simp add: dropdownChange_def updateVis_def setMap_def)

text \<open>
  C5, as the code has it. Take a table with at least one row and a selected field that
  is one of its columns: the field the state holds, or the first eligible column when
  the state holds none. When that field has fewer than two finite values, the callback
  shows an alert whose text names the field and throws before it draws anything. By
  then it has stored the column list, the ratio flag and the lookup table of the
  refused field, and it leaves the colour scale as it was.
\<close>

theorem callback_insufficient_data:
  assumes rows: "csvRows csvData = row0 # rest"
    and sel: "selectField (expressed st) (numericColumns csvData row0) = Some field"
    and col: "ownColumn csvData field"
    and few: "length (expressedValues (readRows lb csvData field)) < 2"
  shows "\<exists>st'. callback lb csvData features st = (Some (BadData (notEnough field)), st')
           \<and> alerts st' = alerts st @ [''Not enough valid data for '' @ [CHR 0x22] @ field @ [CHR 0x22]]
           \<and> drawn st' = drawn st
           \<and> colorScale st' = colorScale st
           \<and> expressed st' = Some field
           \<and> attrArray st' = numericColumns csvData row0
           \<and> isRatioField st' = isRatioCell (row0 field)
           \<and> healthByCounty st' = lookupView lb csvData field"
  using assms by (simp add: callback_def Let_def notEnough_def fieldName_def cellOf_def)

text \<open>
  The table of two fields, once loaded, when \<open>cases\<close> is chosen in the dropdown: only
  one county has a finite number of cases, so the attempt is refused with the alert,
  and the page is left with the empty frame of the map.
\<close>

theorem callback_insufficient_data_witness:
  "csvRows healthTable
     = healthRow ''Adams'' ''1'' ''7''
       # [healthRow ''Dane'' [] ''1e400'', healthRow ''Brown'' ''2'' ''n/a'',
          healthRow ''Clark'' ''3'' ''n/a'', healthRow ''Door'' ''4'' ''n/a'',
          healthRow ''Dunn'' ''5'' ''n/a'']
   \<and> selectField (Some ''cases'') (numericColumns healthTable (healthRow ''Adams'' ''1'' ''7''))
       = Some ''cases''
   \<and> ownColumn healthTable ''cases''
   \<and> length (expressedValues (readRows gapLib healthTable ''cases'')) < 2
   \<and> (\<exists>st'. dropdownChange gapLib healthTable healthFeatures ''cases'' loaded
               = (Some (BadData (notEnough ''cases'')), st')
         \<and> alerts st' = [''Not enough valid data for '' @ [CHR 0x22] @ ''cases'' @ [CHR 0x22]]
         \<and> drawn st' = [DrawTooltip, DrawDropdown [''rate'', ''cases''], DrawMap, DrawTooltip])"
proof -
  let ?row = "healthRow ''Adams'' ''1'' ''7''"
  let ?rest = "[healthRow ''Dane'' [] ''1e400'', healthRow ''Brown'' ''2'' ''n/a'',
          healthRow ''Clark'' ''3'' ''n/a'', healthRow ''Door'' ''4'' ''n/a'',
          healthRow ''Dunn'' ''5'' ''n/a'']"
  let ?st = "loaded\<lparr>expressed := Some ''cases'',
      drawn := filter (\<lambda>d. \<not> inSvg d) (drawn loaded) @ [DrawMap, DrawTooltip]\<rparr>"
  have h1: "csvRows healthTable = ?row # ?rest"
    by (rule health_rows)
  have h2: "selectField (Some ''cases'') (numericColumns healthTable ?row) = Some ''cases''"
    by (simp add: selectField_def)
  have h2': "selectField (expressed ?st) (numericColumns healthTable ?row) = Some ''cases''"
    using h2 by simp
  have h3: "ownColumn healthTable ''cases''"
    by (rule health_columns)
  have h4: "length (expressedValues (readRows gapLib healthTable ''cases'')) < 2"
    by (simp add: health_values)
  from callback_insufficient_data [OF h1 h2' h3 h4, of healthFeatures]
  obtain st' where
    "callback gapLib healthTable healthFeatures ?st = (Some (BadData (notEnough ''cases'')), st')"
    "alerts st' = alerts ?st @ [''Not enough valid data for '' @ [CHR 0x22] @ ''cases'' @ [CHR 0x22]]"
    "drawn st' = drawn ?st"
    by blast
  then have "\<exists>st'. dropdownChange gapLib healthTable healthFeatures ''cases'' loaded
               = (Some (BadData (notEnough ''cases'')), st')
         \<and> alerts st' = [''Not enough valid data for '' @ [CHR 0x22] @ ''cases'' @ [CHR 0x22]]
         \<and> drawn st' = [DrawTooltip, DrawDropdown [''rate'', ''cases''], DrawMap, DrawTooltip]"
    by (simp add: dropdownChange_callback loaded_state)
  with h1 h2 h3 h4 show ?thesis by blast
qed

text \<open>
  The state after a refused attempt is neither reset nor restored. After the choice of
  \<open>cases\<close> above it still holds the colour scale that was computed for \<open>rate\<close>, next to
  the selection and the lookup table of the refused field: Adams county is looked up
  with its number of cases. And a table without any row has fewer than two finite
  values for every field, yet the callback shows no alert: it ends with a TypeError.
\<close>

theorem insufficient_data_state_counterexample:
  "fst (dropdownChange gapLib healthTable healthFeatures ''cases'' loaded)
     = Some (BadData (notEnough ''cases''))
   \<and> colorScale loaded = Some \<lparr>domain = [1, 2, 3, 4, 5], colorRange = paletteOf 6\<rparr>
   \<and> colorScale (snd (dropdownChange gapLib healthTable healthFeatures ''cases'' loaded))
       = Some \<lparr>domain = [1, 2, 3, 4, 5], colorRange = paletteOf 6\<rparr>
   \<and> expressed (snd (dropdownChange gapLib healthTable healthFeatures ''cases'' loaded))
       = Some ''cases''
   \<and> healthByCounty loaded ''Adams''
       = Some \<lparr>county = ''Adams'', rawValue = ''1'', expressedValue = Num 1\<rparr>
   \<and> healthByCounty (snd (dropdownChange gapLib healthTable healthFeatures ''cases'' loaded)) ''Adams''
       = Some \<lparr>county = ''Adams'', rawValue = ''7'', expressedValue = Num 7\<rparr>
   \<and> drawn (snd (dropdownChange gapLib healthTable healthFeatures ''cases'' loaded))
       = [DrawTooltip, DrawDropdown [''rate'', ''cases''], DrawMap, DrawTooltip]
   \<and> callback gapLib headerOnly healthFeatures initialState = (Some TypeError, initialState)"
proof -
  have r: "isRatioCell (cellOf healthTable (healthRow ''Adams'' ''1'' ''7'') ''cases'') = False"
    by (simp add: cellOf_def health_columns healthRow_def isRatioCell_def)
  have c: "dropdownChange gapLib healthTable healthFeatures ''cases'' loaded
      = (Some (BadData (notEnough ''cases'')),
         \<lparr>expressed = Some ''cases'', isRatioField = False,
          healthByCounty = lookupView gapLib healthTable ''cases'',
          attrArray = [''rate'', ''cases''],
          colorScale = Some \<lparr>domain = [1, 2, 3, 4, 5], colorRange = paletteOf 6\<rparr>,
          alerts = [notEnough ''cases''],
          drawn = [DrawTooltip, DrawDropdown [''rate'', ''cases''], DrawMap, DrawTooltip]\<rparr>)"
    by (simp add: dropdownChange_callback loaded_state callback_def health_rows Let_def
        health_numericColumns selectField_def fieldName_def health_columns r health_values)
  have h: "callback gapLib headerOnly healthFeatures initialState = (Some TypeError, initialState)"
    by (simp add: callback_def headerOnly_def)
  show ?thesis
    unfolding c h by (simp add: loaded_state health_view)
qed

end
